theory Spec2Isabelle
  imports Complex_Main "HOL-Library.Sublist"
begin

section \<open>Data model of the query service\<close>

text \<open>
  An entity as the service receives it from \<^verbatim>\<open>toAwsEntities\<close>: the fields \<^verbatim>\<open>Type\<close>,
  \<^verbatim>\<open>Text\<close> and \<^verbatim>\<open>Score\<close> of the AWS Comprehend \<^verbatim>\<open>Entity\<close>. A score is a finite
  JavaScript number, read as the rational it denotes.
\<close>

record entity =
  Type :: string
  Text :: string
  Score :: rat

subsection \<open>JavaScript numbers\<close>

text \<open>
  A JavaScript number is an IEEE 754 binary64 value: NaN, an infinity, or a finite value,
  which is a rational. The two zeros are one value here: the service adds, subtracts,
  halves, rounds, compares and prints numbers, and none of these tells \<open>-0\<close> from
  \<open>0\<close> (both print as \<^verbatim>\<open>0\<close>).
\<close>

datatype number = NaN | PosInfinity | NegInfinity | Finite rat

text \<open>The number of binary digits of a natural number.\<close>

fun bitlen :: "nat \<Rightarrow> nat" where
  "bitlen n = (if n = 0 then 0 else Suc (bitlen (n div 2)))"

declare bitlen.simps [simp del]

text \<open>The exponent of the binade of a positive rational: the floor of its binary logarithm.\<close>

definition floor_log2 :: "rat \<Rightarrow> int" where
  "floor_log2 q =
     (if 1 \<le> q then int (bitlen (nat \<lfloor>q\<rfloor>)) - 1
      else - int (bitlen (nat (\<lceil>1 / q\<rceil> - 1))))"

definition round_half_even :: "rat \<Rightarrow> int" where
  "round_half_even x =
     (let f = \<lfloor>x\<rfloor>; d = x - of_int f
      in if d < 1 / 2 then f
         else if 1 / 2 < d then f + 1
         else if even f then f else f + 1)"

definition pow2 :: "int \<Rightarrow> rat" where
  "pow2 e = power_int 2 e"

text \<open>
  Rounding of an exact result to binary64, to nearest with ties to even: 53 significant
  bits, the exponent at least \<open>-1022\<close> (below it the values are subnormal), and
  overflow to an infinity.
\<close>

definition round_binary64 :: "rat \<Rightarrow> number" where
  "round_binary64 q =
     (if q = 0 then Finite 0
      else
        (let e = max (floor_log2 \<bar>q\<bar>) (- 1022);
             u = pow2 (e - 52);
             r = of_int (round_half_even (\<bar>q\<bar> / u)) * u
         in if pow2 1024 \<le> r then (if q < 0 then NegInfinity else PosInfinity)
            else Finite (if q < 0 then - r else r)))"

text \<open>\<^verbatim>\<open>a + b\<close>, \<^verbatim>\<open>a - b\<close> and \<^verbatim>\<open>a / 2\<close>.\<close>

fun number_add :: "number \<Rightarrow> number \<Rightarrow> number" where
  "number_add (Finite a) (Finite b) = round_binary64 (a + b)"
| "number_add NaN _ = NaN"
| "number_add _ NaN = NaN"
| "number_add PosInfinity NegInfinity = NaN"
| "number_add NegInfinity PosInfinity = NaN"
| "number_add PosInfinity _ = PosInfinity"
| "number_add NegInfinity _ = NegInfinity"
| "number_add (Finite a) PosInfinity = PosInfinity"
| "number_add (Finite a) NegInfinity = NegInfinity"

fun number_sub :: "number \<Rightarrow> number \<Rightarrow> number" where
  "number_sub (Finite a) (Finite b) = round_binary64 (a - b)"
| "number_sub NaN _ = NaN"
| "number_sub _ NaN = NaN"
| "number_sub PosInfinity PosInfinity = NaN"
| "number_sub NegInfinity NegInfinity = NaN"
| "number_sub PosInfinity _ = PosInfinity"
| "number_sub NegInfinity _ = NegInfinity"
| "number_sub (Finite a) PosInfinity = NegInfinity"
| "number_sub (Finite a) NegInfinity = PosInfinity"

fun number_half :: "number \<Rightarrow> number" where
  "number_half (Finite a) = round_binary64 (a / 2)"
| "number_half x = x"

text \<open>\<^verbatim>\<open>a >= b\<close>: false when either side is NaN.\<close>

fun number_ge :: "number \<Rightarrow> number \<Rightarrow> bool" where
  "number_ge NaN _ = False"
| "number_ge _ NaN = False"
| "number_ge PosInfinity _ = True"
| "number_ge _ NegInfinity = True"
| "number_ge NegInfinity _ = False"
| "number_ge _ PosInfinity = False"
| "number_ge (Finite a) (Finite b) = (b \<le> a)"

text \<open>\<^verbatim>\<open>Math.ceil\<close> and \<^verbatim>\<open>Math.round\<close> (halves go up).\<close>

fun Math_ceil :: "number \<Rightarrow> number" where
  "Math_ceil (Finite a) = Finite (of_int \<lceil>a\<rceil>)"
| "Math_ceil x = x"

fun Math_round :: "number \<Rightarrow> number" where
  "Math_round (Finite a) = Finite (of_int \<lfloor>a + 1 / 2\<rfloor>)"
| "Math_round x = x"

text \<open>The last \<open>k\<close> decimal digits of \<open>n\<close>, and all of them.\<close>

fun digits :: "nat \<Rightarrow> nat \<Rightarrow> string" where
  "digits 0 n = []"
| "digits (Suc k) n = digits k (n div 10) @ [''0123456789'' ! (n mod 10)]"

fun declen :: "nat \<Rightarrow> nat" where
  "declen n = (if n = 0 then 0 else Suc (declen (n div 10)))"

declare declen.simps [simp del]

definition decimal :: "nat \<Rightarrow> string" where
  "decimal n = (if n = 0 then ''0'' else digits (declen n) n)"

definition pow10 :: "int \<Rightarrow> rat" where
  "pow10 e = power_int 10 e"

definition floor_log10 :: "rat \<Rightarrow> int" where
  "floor_log10 q =
     (if 1 \<le> q then int (declen (nat \<lfloor>q\<rfloor>)) - 1
      else - int (declen (nat (\<lceil>1 / q\<rceil> - 1))))"

text \<open>
  The conversion of a number to a string (\<^verbatim>\<open>`${x}`\<close>, ECMAScript's Number::toString):
  the decimal \<open>s \<times> 10\<^sup>n\<^sup>-\<^sup>k\<close> with the fewest digits \<open>k\<close> that rounds to \<open>x\<close>, the
  nearer one when two have \<open>k\<close> digits and the one with an even \<open>s\<close> when both are
  as near. \<open>candidate x k\<close> is that decimal for a given \<open>k\<close>, when there is one;
  17 digits always suffice.
\<close>

definition candidate :: "rat \<Rightarrow> nat \<Rightarrow> (int \<times> int) option" where
  "candidate x k =
     (let n = floor_log10 x + 1;
          p = pow10 (n - int k);
          lo = \<lfloor>x / p\<rfloor>;
          hi = lo + 1;
          okl = (10 ^ (k - 1) \<le> lo \<and> round_binary64 (of_int lo * p) = Finite x);
          okh = (round_binary64 (of_int hi * p) = Finite x)
      in if okl \<and> (\<not> okh \<or> x - of_int lo * p < of_int hi * p - x \<or>
                  (x - of_int lo * p = of_int hi * p - x \<and> even lo))
         then Some (lo, n)
         else if okh then (if hi = 10 ^ k then Some (10 ^ (k - 1), n + 1) else Some (hi, n))
         else None)"

fun shortest :: "rat \<Rightarrow> nat \<Rightarrow> nat \<Rightarrow> (nat \<times> int \<times> int) option" where
  "shortest x k 0 = None"
| "shortest x k (Suc fuel) =
     (case candidate x k of
        Some (s, n) \<Rightarrow> Some (k, s, n)
      | None \<Rightarrow> shortest x (Suc k) fuel)"

definition format_decimal :: "nat \<Rightarrow> int \<Rightarrow> int \<Rightarrow> string" where
  "format_decimal k s n =
     (let ds = digits k (nat s)
      in if int k \<le> n \<and> n \<le> 21 then ds @ replicate (nat (n - int k)) CHR ''0''
         else if 0 < n \<and> n \<le> 21 then take (nat n) ds @ ''.'' @ drop (nat n) ds
         else if - 6 < n \<and> n \<le> 0 then ''0.'' @ replicate (nat (- n)) CHR ''0'' @ ds
         else
           (let ex = (if 0 \<le> n - 1 then ''+'' else ''-'') @ decimal (nat \<bar>n - 1\<bar>)
            in if k = 1 then ds @ ''e'' @ ex
               else take 1 ds @ ''.'' @ drop 1 ds @ ''e'' @ ex))"

fun number_toString :: "number \<Rightarrow> string" where
  "number_toString NaN = ''NaN''"
| "number_toString PosInfinity = ''Infinity''"
| "number_toString NegInfinity = ''-Infinity''"
| "number_toString (Finite x) =
     (if x = 0 then ''0''
      else
        (case shortest \<bar>x\<bar> 1 17 of
           None \<Rightarrow> []
         | Some (k, s, n) \<Rightarrow> (if x < 0 then ''-'' else []) @ format_decimal k s n))"

text \<open>A decimal literal of the source text denotes the nearest binary64 value.\<close>

definition literal :: "rat \<Rightarrow> number" where
  "literal q = round_binary64 q"

subsection \<open>JavaScript dates\<close>

text \<open>
  A \<^verbatim>\<open>Date\<close> holds a time value: a whole number of milliseconds since
  1970-01-01T00:00:00Z, at most 8.64e15 in magnitude, or NaN (an invalid date, what a
  date parser returns for text it cannot read).
\<close>

datatype jsdate = Invalid_Date | Date int

text \<open>\<^verbatim>\<open>getTime()\<close>.\<close>

fun getTime :: "jsdate \<Rightarrow> number" where
  "getTime Invalid_Date = NaN"
| "getTime (Date t) = Finite (of_int t)"

text \<open>
  \<^verbatim>\<open>new Date(value)\<close> for a number: the time value is clipped (TimeClip), so a number
  that is not finite or is beyond 8.64e15 in magnitude gives an invalid date, and a
  fraction is cut off towards zero.
\<close>

fun newDate :: "number \<Rightarrow> jsdate" where
  "newDate (Finite v) =
     (if 8640000000000000 < \<bar>v\<bar> then Invalid_Date
      else Date (if 0 \<le> v then \<lfloor>v\<rfloor> else \<lceil>v\<rceil>))"
| "newDate x = Invalid_Date"

definition msPerDay :: int where
  "msPerDay = 86400000"

definition Day :: "int \<Rightarrow> int" where
  "Day t = t div msPerDay"

text \<open>
  The number of the first day of year \<open>y\<close>, counted from 1970-01-01, in the proleptic
  Gregorian calendar, and the length of the year.
\<close>

definition DayFromYear :: "int \<Rightarrow> int" where
  "DayFromYear y =
     365 * (y - 1970) + (y - 1969) div 4 - (y - 1901) div 100 + (y - 1601) div 400"

definition DaysInYear :: "int \<Rightarrow> int" where
  "DaysInYear y =
     (if y mod 4 \<noteq> 0 then 365
      else if y mod 100 \<noteq> 0 then 366
      else if y mod 400 \<noteq> 0 then 365
      else 366)"

text \<open>
  The year of a day number: the largest \<open>y\<close> with \<open>DayFromYear y \<le> d\<close>
  (\<open>YearFromDay_bounds\<close> below), computed from an estimate that is off by one year at
  most.
\<close>

definition YearFromDay :: "int \<Rightarrow> int" where
  "YearFromDay d =
     (let y = 1970 + (400 * d) div 146097
      in if d < DayFromYear y then y - 1
         else if DayFromYear (y + 1) \<le> d then y + 1
         else y)"

definition YearFromTime :: "int \<Rightarrow> int" where
  "YearFromTime t = YearFromDay (Day t)"

definition InLeapYear :: "int \<Rightarrow> int" where
  "InLeapYear t = (if DaysInYear (YearFromTime t) = 366 then 1 else 0)"

definition DayWithinYear :: "int \<Rightarrow> int" where
  "DayWithinYear t = Day t - DayFromYear (YearFromTime t)"

text \<open>The month, from 0 (January) to 11, and the day of the month, from 1.\<close>

definition MonthFromTime :: "int \<Rightarrow> int" where
  "MonthFromTime t =
     (let d = DayWithinYear t; l = InLeapYear t
      in if d < 31 then 0
         else if d < 59 + l then 1
         else if d < 90 + l then 2
         else if d < 120 + l then 3
         else if d < 151 + l then 4
         else if d < 181 + l then 5
         else if d < 212 + l then 6
         else if d < 243 + l then 7
         else if d < 273 + l then 8
         else if d < 304 + l then 9
         else if d < 334 + l then 10
         else 11)"

definition DateFromTime :: "int \<Rightarrow> int" where
  "DateFromTime t =
     (let d = DayWithinYear t; l = InLeapYear t; m = MonthFromTime t
      in if m = 0 then d + 1
         else if m = 1 then d - 30
         else if m = 2 then d - 58 - l
         else if m = 3 then d - 89 - l
         else if m = 4 then d - 119 - l
         else if m = 5 then d - 150 - l
         else if m = 6 then d - 180 - l
         else if m = 7 then d - 211 - l
         else if m = 8 then d - 242 - l
         else if m = 9 then d - 272 - l
         else if m = 10 then d - 303 - l
         else d - 333 - l)"

definition HourFromTime :: "int \<Rightarrow> int" where
  "HourFromTime t = (t div 3600000) mod 24"

definition MinFromTime :: "int \<Rightarrow> int" where
  "MinFromTime t = (t div 60000) mod 60"

definition SecFromTime :: "int \<Rightarrow> int" where
  "SecFromTime t = (t div 1000) mod 60"

definition msFromTime :: "int \<Rightarrow> int" where
  "msFromTime t = t mod 1000"

text \<open>\<^verbatim>\<open>getUTCFullYear()\<close>: NaN (\<open>None\<close>) on an invalid date.\<close>

fun getUTCFullYear :: "jsdate \<Rightarrow> int option" where
  "getUTCFullYear Invalid_Date = None"
| "getUTCFullYear (Date t) = Some (YearFromTime t)"

text \<open>
  Modelled from the spec: the error kinds of \<^verbatim>\<open>query.error.ts\<close> that the service
  throws. \<open>GeoLookupFailed\<close> stands for a rejection of the geocoding call, which
  the service lets through; \<open>RangeError\<close> and \<open>TypeError\<close> are the errors of the
  JavaScript runtime (\<^verbatim>\<open>toISOString\<close> of an invalid date, a method call on
  \<^verbatim>\<open>undefined\<close>).
\<close>

datatype QueryError = NoDatesFound | NoLocationsFound | NoVariableFound
  | GeoLookupFailed | RangeError | TypeError

text \<open>
  \<^verbatim>\<open>toISOString()\<close>: \<^verbatim>\<open>YYYY-MM-DDTHH:mm:ss.sssZ\<close> in UTC, the year with a sign and six
  digits when it is not within 0 to 9999; a RangeError on an invalid date.
\<close>

definition yearString :: "int \<Rightarrow> string" where
  "yearString y =
     (if 0 \<le> y \<and> y \<le> 9999 then digits 4 (nat y)
      else if y < 0 then ''-'' @ digits 6 (nat (- y))
      else ''+'' @ digits 6 (nat y))"

definition isoDatePart :: "int \<Rightarrow> string" where
  "isoDatePart t =
     yearString (YearFromTime t) @ ''-'' @ digits 2 (nat (MonthFromTime t + 1)) @ ''-'' @
     digits 2 (nat (DateFromTime t))"

definition isoTimePart :: "int \<Rightarrow> string" where
  "isoTimePart t =
     digits 2 (nat (HourFromTime t)) @ '':'' @ digits 2 (nat (MinFromTime t)) @ '':'' @
     digits 2 (nat (SecFromTime t)) @ ''.'' @ digits 3 (nat (msFromTime t)) @ ''Z''"

fun toISOString :: "jsdate \<Rightarrow> QueryError + string" where
  "toISOString Invalid_Date = Inl RangeError"
| "toISOString (Date t) = Inr (isoDatePart t @ ''T'' @ isoTimePart t)"

text \<open>A valid date: its time value is within the range that TimeClip keeps.\<close>

fun valid_date :: "jsdate \<Rightarrow> bool" where
  "valid_date Invalid_Date = False"
| "valid_date (Date t) = (\<bar>t\<bar> \<le> 8640000000000000)"

subsection \<open>Strings and arrays\<close>

text \<open>\<^verbatim>\<open>s.split(c)\<close> for a separator of one character: at least one part.\<close>

fun split :: "char \<Rightarrow> string \<Rightarrow> string list" where
  "split c [] = [[]]"
| "split c (x # xs) =
     (if x = c then [] # split c xs
      else (case split c xs of [] \<Rightarrow> [[x]] | p # ps \<Rightarrow> (x # p) # ps))"

text \<open>\<^verbatim>\<open>xs[i]\<close>: \<^verbatim>\<open>undefined\<close> (\<open>None\<close>) out of range.\<close>

fun index :: "'a list \<Rightarrow> nat \<Rightarrow> 'a option" where
  "index [] i = None"
| "index (x # xs) 0 = Some x"
| "index (x # xs) (Suc i) = index xs i"

text \<open>\<^verbatim>\<open>word.startsWith(validStem)\<close>.\<close>

fun startsWith :: "string \<Rightarrow> string \<Rightarrow> bool" where
  "startsWith word [] = True"
| "startsWith [] (c # cs) = False"
| "startsWith (w # ws) (c # cs) = (w = c \<and> startsWith ws cs)"

text \<open>
  \<^verbatim>\<open>!!x\<close> for the result of \<^verbatim>\<open>Array.find\<close> over strings: \<^verbatim>\<open>undefined\<close> and the empty
  string are falsy.
\<close>

fun truthy :: "string option \<Rightarrow> bool" where
  "truthy None = False"
| "truthy (Some s) = (s \<noteq> [])"

section \<open>The query service\<close>

text \<open>
  Modelled from the spec: the enumeration \<^verbatim>\<open>ClimateVariable\<close> of
  \<^verbatim>\<open>climate.variable.ts\<close>, which the service imports and whose members it names:
  Temperature, TotalCloudCover, TotalPrecipitation, WindSpeed.
\<close>

datatype ClimateVariable = Temperature | TotalCloudCover | TotalPrecipitation | WindSpeed

text \<open>
  The field \<^verbatim>\<open>stems\<close> set by the constructor: an object literal, whose keys
  \<^verbatim>\<open>Object.keys\<close> lists in the order they were written.
\<close>

definition stems :: "(ClimateVariable \<times> string list) list" where
  "stems =
     [(Temperature, [''hot'', ''cold'', ''warm'', ''freeze'']),
      (TotalCloudCover, [''sun'', ''cloud'', ''clear'', ''overcast'']),
      (TotalPrecipitation, [''dry'', ''wet'', ''rain'', ''moist'']),
      (WindSpeed, [''wind'', ''storm'', ''calm''])]"

text \<open>\<^verbatim>\<open>new Date("2008-01-01")\<close>: a date-only ISO string is read as UTC midnight.\<close>

definition minDate :: jsdate where
  "minDate = Date 1199145600000"

text \<open>
  \<^verbatim>\<open>toDates\<close>. The date parser \<^verbatim>\<open>SugarDate.create\<close> is a library outside the
  repository: it is the parameter \<open>create\<close>.
\<close>

definition toDates :: "(string \<Rightarrow> jsdate) \<Rightarrow> entity list \<Rightarrow> jsdate list" where
  "toDates create entites =
     filter (\<lambda>date. number_ge (getTime date) (getTime minDate))
       (map (\<lambda>entity. create (Text entity))
         (filter (\<lambda>entity. Type entity = ''DATE'') entites))"

definition toLocations :: "entity list \<Rightarrow> string list" where
  "toLocations entities =
     map (\<lambda>entity. Text entity) (filter (\<lambda>entity. Type entity = ''LOCATION'') entities)"

text \<open>
  \<^verbatim>\<open>toVariable\<close>. The keyword extractor (\<^verbatim>\<open>KeywordExtractor.extract\<close> with the options
  of the call) is a library outside the repository: it is the parameter
  \<open>keywords\<close>. The stemmed words are computed by the source and never read.
  \<^verbatim>\<open>Array.find\<close> returns \<^verbatim>\<open>undefined\<close> when nothing matches: \<open>None\<close>.
\<close>

definition toVariable :: "(string \<Rightarrow> string list) \<Rightarrow> string \<Rightarrow> ClimateVariable option" where
  "toVariable keywords input =
     (let words = keywords input
      in map_option fst
           (find (\<lambda>(variable, validStems).
                    truthy (find (\<lambda>validStem.
                                    truthy (find (\<lambda>word. startsWith word validStem) words))
                              validStems))
              stems))"

text \<open>
  The classifier in the words of the spec: the vocabulary of each variable, a variable
  matches when some entry of its vocabulary is a prefix of some keyword, and the result
  is the first variable, in the order of the enumeration, that matches.
\<close>

fun vocabulary :: "ClimateVariable \<Rightarrow> string list" where
  "vocabulary Temperature = [''hot'', ''cold'', ''warm'', ''freeze'']"
| "vocabulary TotalCloudCover = [''sun'', ''cloud'', ''clear'', ''overcast'']"
| "vocabulary TotalPrecipitation = [''dry'', ''wet'', ''rain'', ''moist'']"
| "vocabulary WindSpeed = [''wind'', ''storm'', ''calm'']"

definition matches :: "string list \<Rightarrow> ClimateVariable \<Rightarrow> bool" where
  "matches words v = (\<exists>stem \<in> set (vocabulary v). \<exists>word \<in> set words. prefix stem word)"

definition firstMatch :: "string list \<Rightarrow> ClimateVariable option" where
  "firstMatch words =
     find (matches words) [Temperature, TotalCloudCover, TotalPrecipitation, WindSpeed]"

text \<open>A latitude or longitude range, and the bounding box of a place.\<close>

record range =
  min_coord :: number
  max_coord :: number

record GeoCoordinates =
  latitude :: range
  longitude :: range

record dateRange =
  min_date :: jsdate
  max_date :: jsdate

record 'g Query =
  dateRange :: dateRange
  googleResult :: 'g
  geoCoordinates :: GeoCoordinates
  variable :: ClimateVariable

text \<open>
  \<^verbatim>\<open>date.getUTCFullYear() < 2018 && date.getUTCFullYear() > 2007\<close>; false on NaN.
\<close>

definition in_window :: "jsdate \<Rightarrow> bool" where
  "in_window date =
     (case getUTCFullYear date of None \<Rightarrow> False | Some y \<Rightarrow> y < 2018 \<and> y > 2007)"

text \<open>
  The external services of \<^verbatim>\<open>createQuery\<close>: the date parser, the keyword extractor,
  the geocoding lookup \<^verbatim>\<open>geoService.getGoogleResult\<close> (\<open>Inl\<close> when the call is
  rejected) and \<^verbatim>\<open>geoService.toGeoCoordinates\<close> on the geometry of its result.
\<close>

record 'g services =
  create :: "string \<Rightarrow> jsdate"
  keywordExtractor :: "string \<Rightarrow> string list"
  getGoogleResult :: "string \<Rightarrow> QueryError + 'g"
  toGeoCoordinates :: "'g \<Rightarrow> GeoCoordinates"

text \<open>
  \<^verbatim>\<open>sort((e1, e2) => e2.Score - e1.Score)\<close>: a stable sort by descending score.
\<close>

definition sortByScore :: "entity list \<Rightarrow> entity list" where
  "sortByScore es = sort_key (\<lambda>e. - Score e) es"

text \<open>
  The key of \<^verbatim>\<open>sort((d1, d2) => d1.getTime() - d2.getTime())\<close>, which the source
  applies to valid dates only.
\<close>

fun timeKey :: "jsdate \<Rightarrow> int" where
  "timeKey (Date t) = t"
| "timeKey Invalid_Date = 0"

text \<open>
  \<^verbatim>\<open>createQuery\<close>, from the entities that \<^verbatim>\<open>toAwsEntities\<close> returns. The source
  filters the dates to the years 2008 to 2017 and sorts them by time, into a new array
  that it does not keep (\<open>ascending\<close> below): the range is read from \<open>dates\<close>.
\<close>

definition createQuery :: "'g services \<Rightarrow> string \<Rightarrow> entity list \<Rightarrow> QueryError + 'g Query" where
  "createQuery svc input awsEntities =
     (let entities = sortByScore awsEntities;
          dates = toDates (create svc) entities;
          locations = toLocations entities
      in if dates = [] \<or> find in_window dates = None then Inl NoDatesFound
         else if locations = [] then Inl NoLocationsFound
         else
           (case getGoogleResult svc (hd locations) of
              Inl err \<Rightarrow> Inl err
            | Inr result \<Rightarrow>
               (let coords = toGeoCoordinates svc result;
                    ascending = sort_key timeKey (filter in_window dates)
                in case toVariable (keywordExtractor svc) input of
                     None \<Rightarrow> Inl NoVariableFound
                   | Some climateVariable \<Rightarrow>
                       Inr \<lparr>dateRange = \<lparr>min_date = hd dates, max_date = last dates\<rparr>,
                            googleResult = result,
                            geoCoordinates = coords,
                            variable = climateVariable\<rparr>)))"

text \<open>
  The request of the climate data store: a name and an object of options, an association
  list in the order of the object literal. \<^verbatim>\<open>DataFormat\<close> is an enumeration of the
  client library.
\<close>

datatype DataFormat = grib

datatype jsvalue = Undefined | Str string | StrList "string list"
  | Variable ClimateVariable | Format DataFormat

record DataRequest =
  name :: string
  options :: "(string \<times> jsvalue) list"

text \<open>A string read from an array, as a property value and inside a template string.\<close>

fun property :: "string option \<Rightarrow> jsvalue" where
  "property None = Undefined"
| "property (Some s) = Str s"

fun template :: "string option \<Rightarrow> string" where
  "template None = ''undefined''"
| "template (Some s) = s"

text \<open>
  \<^verbatim>\<open>toDataRequest\<close>. A method call on \<^verbatim>\<open>undefined\<close> is a TypeError; an element read
  out of range and only stored is \<^verbatim>\<open>undefined\<close>. The source computes \<open>hour\<close> and
  \<open>time\<close> and leaves \<open>time\<close> out of the options.
\<close>

definition toDataRequest :: "'g Query \<Rightarrow> QueryError + DataRequest" where
  "toDataRequest query =
     (let date = newDate (Math_round (number_half
                   (number_add (getTime (max_date (dateRange query)))
                               (getTime (min_date (dateRange query))))))
      in case toISOString date of
           Inl err \<Rightarrow> Inl err
         | Inr isoDate \<Rightarrow>
            (case index (split CHR ''T'' isoDate) 0 of
               None \<Rightarrow> Inl TypeError
             | Some datePart \<Rightarrow>
                (case index (split CHR ''T'' isoDate) 1 of
                   None \<Rightarrow> Inl TypeError
                 | Some timePart \<Rightarrow>
                    (let timeParts = split CHR '':'' timePart;
                         hour = index timeParts 0;
                         dateParts = split CHR ''-'' datePart;
                         year = index dateParts 0;
                         month = index dateParts 1;
                         day = index dateParts 2;
                         latRange = latitude (geoCoordinates query);
                         lonRange = longitude (geoCoordinates query);
                         grid = map (\<lambda>range. number_toString
                                       (Math_ceil (number_sub (max_coord range) (min_coord range))))
                                  [latRange, lonRange];
                         area = map (\<lambda>coord. number_toString coord)
                                  [max_coord latRange, min_coord lonRange,
                                   min_coord latRange, max_coord lonRange];
                         time = template hour @ '':00''
                     in Inr \<lparr>name = ''reanalysis-era5-single-levels'',
                             options =
                               [(''variable'', Variable (variable query)),
                                (''product_type'', Str ''reanalysis''),
                                (''grid'', StrList grid),
                                (''area'', StrList area),
                                (''year'', property year),
                                (''month'', property month),
                                (''day'', property day),
                                (''format'', Format grib)]\<rparr>))))"

section \<open>Services for the examples\<close>

text \<open>
  A date parser that reads three texts, a keyword extractor that knows one sentence, and
  a geocoder that places everything in Paris.
\<close>

definition demoCreate :: "string \<Rightarrow> jsdate" where
  "demoCreate s =
     (if s = ''2015-03-01'' then Date 1425168000000
      else if s = ''2020-01-01'' then Date 1577836800000
      else if s = ''2005-06-15'' then Date 1118793600000
      else Invalid_Date)"

definition demoKeywords :: "string \<Rightarrow> string list" where
  "demoKeywords s = (if s = ''It was so cold and windy'' then [''cold'', ''windy''] else [])"

definition paris :: GeoCoordinates where
  "paris = \<lparr>latitude = \<lparr>min_coord = literal (488 / 10), max_coord = literal (489 / 10)\<rparr>,
            longitude = \<lparr>min_coord = literal (23 / 10), max_coord = literal (24 / 10)\<rparr>\<rparr>"

definition demo :: "string services" where
  "demo = \<lparr>create = demoCreate, keywordExtractor = demoKeywords,
           getGoogleResult = (\<lambda>location. Inr location),
           toGeoCoordinates = (\<lambda>result. paris)\<rparr>"

definition dateEntity :: "string \<Rightarrow> rat \<Rightarrow> entity" where
  "dateEntity s c = \<lparr>Type = ''DATE'', Text = s, Score = c\<rparr>"

definition locationEntity :: "string \<Rightarrow> rat \<Rightarrow> entity" where
  "locationEntity s c = \<lparr>Type = ''LOCATION'', Text = s, Score = c\<rparr>"

definition march2015 :: "string Query" where
  "march2015 =
     \<lparr>dateRange = \<lparr>min_date = Date 1425168000000, max_date = Date 1425168000000\<rparr>,
      googleResult = ''Paris'', geoCoordinates = paris, variable = Temperature\<rparr>"

text \<open>A second bounding box, with a negative longitude, and a query over it.\<close>

definition iberia :: GeoCoordinates where
  "iberia = \<lparr>latitude = \<lparr>min_coord = Finite 36, max_coord = Finite (175 / 4)\<rparr>,
             longitude = \<lparr>min_coord = Finite (- (19 / 2)), max_coord = Finite (13 / 4)\<rparr>\<rparr>"

definition iberia2015 :: "string Query" where
  "iberia2015 = march2015\<lparr>googleResult := ''Iberia'', geoCoordinates := iberia\<rparr>"

section \<open>Properties of the calendar\<close>

lemma set_sortByScore: "set (sortByScore es) = set es"
  by (simp add: sortByScore_def)

lemma div_lower: "0 < k \<Longrightarrow> k * (a div k) \<le> (a::int)"
proof -
  assume "0 < k"
  then have "0 \<le> a mod k" by simp
  moreover have "k * (a div k) + a mod k = a" by simp
  ultimately show ?thesis by linarith
qed

lemma div_upper: "0 < k \<Longrightarrow> (a::int) < k * (a div k) + k"
proof -
  assume "0 < k"
  then have "a mod k < k" by simp
  moreover have "k * (a div k) + a mod k = a" by simp
  ultimately show ?thesis by linarith
qed

lemma DayFromYear_linear_aux:
  fixes a b c y :: int
  assumes "4 * a \<le> y - 1969" and "y - 1969 < 4 * a + 4"
    and "100 * b \<le> y - 1901" and "y - 1901 < 100 * b + 100"
    and "400 * c \<le> y - 1601" and "y - 1601 < 400 * c + 400"
  shows "146097 * y - 287811596 \<le> 400 * (365 * (y - 1970) + a - b + c)"
    and "400 * (365 * (y - 1970) + a - b + c) \<le> 146097 * y - 287810501"
  using assms by (simp_all add: algebra_simps)

lemma DayFromYear_lower: "146097 * y - 287811596 \<le> 400 * DayFromYear y"
  unfolding DayFromYear_def
  by (rule DayFromYear_linear_aux(1)) (simp_all add: div_lower div_upper)

lemma DayFromYear_upper: "400 * DayFromYear y \<le> 146097 * y - 287810501"
  unfolding DayFromYear_def
  by (rule DayFromYear_linear_aux(2)) (simp_all add: div_lower div_upper)

lemma DayFromYear_Suc_aux:
  fixes a a' b b' c c' y :: int
  assumes "a \<le> a'" and "c \<le> c'" and "b' \<le> b + 1"
  shows "365 * (y - 1970) + a - b + c \<le> 365 * (y + 1 - 1970) + a' - b' + c'"
  using assms by (simp add: algebra_simps)

lemma DayFromYear_Suc: "DayFromYear y \<le> DayFromYear (y + 1)"
  unfolding DayFromYear_def
proof (rule DayFromYear_Suc_aux)
  show "(y - 1969) div 4 \<le> (y + 1 - 1969) div 4"
    by (rule zdiv_mono1) simp_all
  show "(y - 1601) div 400 \<le> (y + 1 - 1601) div 400"
    by (rule zdiv_mono1) simp_all
  have "(y + 1 - 1901) div 100 \<le> (y - 1901 + 100) div 100"
    by (rule zdiv_mono1) simp_all
  then show "(y + 1 - 1901) div 100 \<le> (y - 1901) div 100 + 1"
    by simp
qed

lemma DayFromYear_mono: "y \<le> y' \<Longrightarrow> DayFromYear y \<le> DayFromYear y'"
proof (induction "nat (y' - y)" arbitrary: y')
  case 0
  then show ?case by simp
next
  case (Suc n)
  then have "n = nat ((y' - 1) - y)" and "y \<le> y' - 1" by linarith+
  then have "DayFromYear y \<le> DayFromYear (y' - 1)" using Suc.hyps(1) by blast
  then show ?case using DayFromYear_Suc [of "y' - 1"] by simp
qed

lemma YearFromDay_bounds:
  "DayFromYear (YearFromDay d) \<le> d \<and> d < DayFromYear (YearFromDay d + 1)"
proof -
  define y where "y = 1970 + (400 * d) div 146097"
  have q1: "146097 * (y - 1970) \<le> 400 * d"
    unfolding y_def using div_lower [of 146097 "400 * d"] by simp
  have q2: "400 * d < 146097 * (y - 1970) + 146097"
    unfolding y_def using div_upper [of 146097 "400 * d"] by simp
  have lo: "DayFromYear (y - 1) \<le> d"
    using DayFromYear_upper [of "y - 1"] q1 by (simp add: algebra_simps)
  have hi: "d < DayFromYear (y + 2)"
    using DayFromYear_lower [of "y + 2"] q2 by (simp add: algebra_simps)
  have eq: "YearFromDay d = (if d < DayFromYear y then y - 1
         else if DayFromYear (y + 1) \<le> d then y + 1 else y)"
    unfolding YearFromDay_def y_def Let_def ..
  have two: "y + 1 + 1 = y + 2" by simp
  show ?thesis
    unfolding eq using lo hi by (simp add: two)
qed

lemma YearFromDay_ge: "y \<le> YearFromDay d \<longleftrightarrow> DayFromYear y \<le> d"
proof
  assume "y \<le> YearFromDay d"
  then have "DayFromYear y \<le> DayFromYear (YearFromDay d)" by (rule DayFromYear_mono)
  then show "DayFromYear y \<le> d" using YearFromDay_bounds [of d] by linarith
next
  assume *: "DayFromYear y \<le> d"
  show "y \<le> YearFromDay d"
  proof (rule ccontr)
    assume "\<not> y \<le> YearFromDay d"
    then have "YearFromDay d + 1 \<le> y" by simp
    then have "DayFromYear (YearFromDay d + 1) \<le> DayFromYear y" by (rule DayFromYear_mono)
    then show False using * YearFromDay_bounds [of d] by linarith
  qed
qed

lemma Day_ge: "k \<le> Day t \<longleftrightarrow> k * 86400000 \<le> t"
proof
  assume "k \<le> Day t"
  then have "86400000 * k \<le> 86400000 * (t div 86400000)"
    by (simp add: Day_def msPerDay_def)
  moreover have "86400000 * (t div 86400000) \<le> t"
    by (rule div_lower) simp
  ultimately show "k * 86400000 \<le> t" by simp
next
  assume "k * 86400000 \<le> t"
  moreover have "t < 86400000 * (t div 86400000) + 86400000"
    by (rule div_upper) simp
  ultimately have "86400000 * k < 86400000 * (t div 86400000 + 1)"
    by (simp add: algebra_simps)
  then have "k < t div 86400000 + 1"
    by (simp only: mult_less_cancel_left_pos [OF zero_less_numeral])
  then show "k \<le> Day t"
    by (simp add: Day_def msPerDay_def)
qed

lemma YearFromTime_ge: "y \<le> YearFromTime t \<longleftrightarrow> DayFromYear y * 86400000 \<le> t"
  by (simp add: YearFromTime_def YearFromDay_ge Day_ge)

lemma YearFromTime_less: "YearFromTime t < y \<longleftrightarrow> t < DayFromYear y * 86400000"
  using YearFromTime_ge [of y t] by linarith

lemma DayFromYear_2008: "DayFromYear 2008 = 13879"
  by (simp add: DayFromYear_def)

lemma DayFromYear_2018: "DayFromYear 2018 = 17532"
  by (simp add: DayFromYear_def)

lemma in_window_Date:
  "in_window (Date t) \<longleftrightarrow> 1199145600000 \<le> t \<and> t < 1514764800000"
proof -
  have "in_window (Date t) \<longleftrightarrow> 2008 \<le> YearFromTime t \<and> YearFromTime t < 2018"
    by (auto simp: in_window_def)
  then show ?thesis
    by (simp add: YearFromTime_ge YearFromTime_less DayFromYear_2008 DayFromYear_2018)
qed

section \<open>Properties of the entity classifier\<close>

lemma number_ge_minDate:
  "number_ge (getTime d) (getTime minDate) \<longleftrightarrow> (\<exists>t. d = Date t \<and> 1199145600000 \<le> t)"
  by (cases d) (simp_all add: minDate_def)

lemma in_window_Invalid [simp]: "\<not> in_window Invalid_Date"
  by (simp add: in_window_def)

lemma in_window_number_ge: "in_window d \<Longrightarrow> number_ge (getTime d) (getTime minDate)"
  by (cases d) (simp_all add: in_window_Date minDate_def)

lemma set_toDates:
  "set (toDates cr es) =
     {d. (\<exists>e \<in> set es. Type e = ''DATE'' \<and> d = cr (Text e)) \<and>
         number_ge (getTime d) (getTime minDate)}"
  by (auto simp: toDates_def)

lemma toDates_sortByScore_in_window:
  "(\<exists>d \<in> set (toDates cr (sortByScore es)). in_window d) \<longleftrightarrow>
   (\<exists>e \<in> set es. Type e = ''DATE'' \<and> in_window (cr (Text e)))"
  by (auto simp: set_toDates set_sortByScore in_window_number_ge)

lemma dates_check:
  "(dates = [] \<or> find in_window dates = None) \<longleftrightarrow> \<not> (\<exists>d \<in> set dates. in_window d)"
  by (auto simp: find_None_iff)

lemma toLocations_Nil:
  "toLocations (sortByScore es) = [] \<longleftrightarrow> (\<forall>e \<in> set es. Type e \<noteq> ''LOCATION'')"
  by (auto simp: toLocations_def filter_empty_conv set_sortByScore)

lemma createQuery_NoDatesFound:
  "createQuery svc input es = Inl NoDatesFound"
  if "\<not> (\<exists>e \<in> set es. Type e = ''DATE'' \<and> in_window (create svc (Text e)))"
proof -
  have "\<not> (\<exists>d \<in> set (toDates (create svc) (sortByScore es)). in_window d)"
    using that toDates_sortByScore_in_window [of "create svc" es] by blast
  then have "toDates (create svc) (sortByScore es) = [] \<or>
      find in_window (toDates (create svc) (sortByScore es)) = None"
    by (simp only: dates_check simp_thms)
  then show ?thesis
    by (simp add: createQuery_def Let_def)
qed

lemma createQuery_NoLocationsFound:
  "createQuery svc input es = Inl NoLocationsFound"
  if "\<exists>e \<in> set es. Type e = ''DATE'' \<and> in_window (create svc (Text e))"
    and "\<forall>e \<in> set es. Type e \<noteq> ''LOCATION''"
proof -
  have "\<exists>d \<in> set (toDates (create svc) (sortByScore es)). in_window d"
    using that(1) toDates_sortByScore_in_window [of "create svc" es] by blast
  then have "\<not> (toDates (create svc) (sortByScore es) = [] \<or>
      find in_window (toDates (create svc) (sortByScore es)) = None)"
    by (simp only: dates_check simp_thms)
  moreover have "toLocations (sortByScore es) = []"
    using that(2) toLocations_Nil [of es] by blast
  ultimately show ?thesis
    by (simp add: createQuery_def Let_def)
qed

text \<open>
  C3, as the source has it. An entity list without a LOCATION entity makes
  \<^verbatim>\<open>createQuery\<close> fail with NoLocationsFound when one of its DATE entities parses to
  a date whose UTC year is within 2008 to 2017, and with NoDatesFound when none does: the
  check of the dates comes first.
\<close>

theorem createQuery_without_locations:
  assumes "\<forall>e \<in> set es. Type e \<noteq> ''LOCATION''"
  shows "createQuery svc input es =
    (if \<exists>e \<in> set es. Type e = ''DATE'' \<and> in_window (create svc (Text e))
     then Inl NoLocationsFound else Inl NoDatesFound)"
  using assms createQuery_NoDatesFound [of es svc input]
    createQuery_NoLocationsFound [of es svc input]
  by (simp split: if_splits)

theorem createQuery_without_locations_witness:
  "createQuery demo ''It was so cold and windy'' [dateEntity ''2015-03-01'' (9 / 10)]
     = Inl NoLocationsFound"
  using createQuery_without_locations
    [of "[dateEntity ''2015-03-01'' (9 / 10)]" demo "''It was so cold and windy''"]
  by (simp add: dateEntity_def demo_def demoCreate_def in_window_Date)

text \<open>
  C3 as the spec states it fails: a list of one DATE entity, which parses to 2005-06-15,
  has no LOCATION entity, and \<^verbatim>\<open>createQuery\<close> fails on it with NoDatesFound and not
  with NoLocationsFound.
\<close>

theorem createQuery_no_locations_counterexample:
  "filter (\<lambda>e. Type e = ''LOCATION'') [dateEntity ''2005-06-15'' (9 / 10)] = [] \<and>
   createQuery demo ''It was so cold and windy'' [dateEntity ''2005-06-15'' (9 / 10)]
     \<noteq> Inl NoLocationsFound"
proof -
  have "createQuery demo ''It was so cold and windy'' [dateEntity ''2005-06-15'' (9 / 10)]
     = Inl NoDatesFound"
    by (rule createQuery_NoDatesFound)
       (simp add: dateEntity_def demo_def demoCreate_def in_window_Date)
  then show ?thesis
    by (simp add: dateEntity_def)
qed

text \<open>
  C10. An entity list with no LOCATION entity and no DATE entity that parses to a date
  with its UTC year within 2008 to 2017 makes \<^verbatim>\<open>createQuery\<close> fail with
  NoDatesFound: the dates are checked before the locations.
\<close>

theorem createQuery_dates_before_locations:
  assumes "\<forall>e \<in> set es. Type e \<noteq> ''LOCATION''"
    and "\<forall>e \<in> set es. Type e = ''DATE'' \<longrightarrow> \<not> in_window (create svc (Text e))"
  shows "createQuery svc input es = Inl NoDatesFound"
  using assms(2) by (intro createQuery_NoDatesFound) blast

theorem createQuery_dates_before_locations_witness:
  "createQuery demo ''It was so cold and windy''
     [dateEntity ''2020-01-01'' (9 / 10), dateEntity ''tomorrow'' (1 / 2)] = Inl NoDatesFound"
  by (rule createQuery_dates_before_locations)
     (simp_all add: dateEntity_def demo_def demoCreate_def in_window_Date)

lemma YearFromTime_2008: "2008 \<le> YearFromTime t \<longleftrightarrow> 1199145600000 \<le> t"
  by (simp add: YearFromTime_ge DayFromYear_2008)

text \<open>
  C2, as the source has it. The dates of \<^verbatim>\<open>toDates\<close> are exactly the parsed texts of
  the DATE entities that are valid dates at or after 2008-01-01T00:00:00Z, that is, with
  a UTC year of 2008 or later: the filter has a lower bound and no upper bound.
\<close>

theorem toDates_from_2008:
  "d \<in> set (toDates cr es) \<longleftrightarrow>
     (\<exists>e \<in> set es. Type e = ''DATE'' \<and> d = cr (Text e)) \<and>
     (\<exists>t. d = Date t \<and> 2008 \<le> YearFromTime t)"
  by (simp add: set_toDates number_ge_minDate YearFromTime_2008)

theorem toDates_from_2008_witness:
  "Date 1425168000000 \<in> set (toDates demoCreate [dateEntity ''2015-03-01'' (9 / 10)])"
  using toDates_from_2008
    [of "Date 1425168000000" demoCreate "[dateEntity ''2015-03-01'' (9 / 10)]"]
  by (simp add: dateEntity_def demoCreate_def YearFromTime_2008)

text \<open>
  C2 as the spec states it fails: a DATE entity that parses to 2020-01-01 is in the dates
  of \<^verbatim>\<open>toDates\<close>.
\<close>

theorem toDates_year_2020_counterexample:
  "toDates demoCreate [dateEntity ''2020-01-01'' (9 / 10)] = [Date 1577836800000] \<and>
   getUTCFullYear (Date 1577836800000) = Some 2020"
  by (simp add: toDates_def dateEntity_def demoCreate_def minDate_def
      YearFromTime_def YearFromDay_def Day_def msPerDay_def DayFromYear_def)

lemma sortByScore_three:
  "sortByScore [dateEntity ''2020-01-01'' (9 / 10), dateEntity ''2015-03-01'' (7 / 10),
      locationEntity ''Paris'' (1 / 2)] =
     [dateEntity ''2020-01-01'' (9 / 10), dateEntity ''2015-03-01'' (7 / 10),
      locationEntity ''Paris'' (1 / 2)]"
  by (simp add: sortByScore_def dateEntity_def locationEntity_def)

lemma toVariable_demo: "toVariable demoKeywords ''It was so cold and windy'' = Some Temperature"
  by (simp add: toVariable_def demoKeywords_def stems_def)

lemma createQuery_three_entities:
  "createQuery demo ''It was so cold and windy''
     [dateEntity ''2020-01-01'' (9 / 10), dateEntity ''2015-03-01'' (7 / 10),
      locationEntity ''Paris'' (1 / 2)] =
   Inr \<lparr>dateRange = \<lparr>min_date = Date 1577836800000, max_date = Date 1425168000000\<rparr>,
        googleResult = ''Paris'', geoCoordinates = paris, variable = Temperature\<rparr>"
proof -
  have dates: "toDates demoCreate
      [dateEntity ''2020-01-01'' (9 / 10), dateEntity ''2015-03-01'' (7 / 10),
       locationEntity ''Paris'' (1 / 2)] = [Date 1577836800000, Date 1425168000000]"
    by (simp add: toDates_def dateEntity_def locationEntity_def demoCreate_def minDate_def)
  have locations: "toLocations
      [dateEntity ''2020-01-01'' (9 / 10), dateEntity ''2015-03-01'' (7 / 10),
       locationEntity ''Paris'' (1 / 2)] = [''Paris'']"
    by (simp add: toLocations_def dateEntity_def locationEntity_def)
  show ?thesis
    unfolding createQuery_def sortByScore_three
    by (simp add: Let_def demo_def dates locations toVariable_demo in_window_Date)
qed

lemma year_2020: "YearFromTime 1577836800000 = 2020"
  by (simp add: YearFromTime_def YearFromDay_def Day_def msPerDay_def DayFromYear_def)

text \<open>
  C1 fails on the source. For a DATE entity of 2020-01-01 with the highest score, one of
  2015-03-01 and a LOCATION entity, \<^verbatim>\<open>createQuery\<close> returns a query whose range
  starts on 2020-01-01 and ends on 2015-03-01: the start is after the end and its year
  is outside 2008 to 2017.
\<close>

theorem createQuery_range_example:
  "\<exists>q. createQuery demo ''It was so cold and windy''
          [dateEntity ''2020-01-01'' (9 / 10), dateEntity ''2015-03-01'' (7 / 10),
           locationEntity ''Paris'' (1 / 2)] = Inr q \<and>
        min_date (dateRange q) = Date 1577836800000 \<and>
        max_date (dateRange q) = Date 1425168000000 \<and>
        getUTCFullYear (min_date (dateRange q)) = Some 2020 \<and>
        \<not> number_ge (getTime (max_date (dateRange q))) (getTime (min_date (dateRange q)))"
  by (simp add: createQuery_three_entities year_2020)










section \<open>Properties of the variable classifier\<close>

lemma startsWith_prefix: "startsWith word stem \<longleftrightarrow> prefix stem word"
  by (induction word stem rule: startsWith.induct) auto

lemma truthy_find:
  "truthy (find P xs) \<longleftrightarrow> (\<exists>x \<in> set xs. P x)" if "\<forall>x \<in> set xs. P x \<longrightarrow> x \<noteq> []"
  using that by (induction xs) auto

lemma truthy_find_word:
  "truthy (find (\<lambda>word. startsWith word stem) words) \<longleftrightarrow> (\<exists>word \<in> set words. prefix stem word)"
  if "stem \<noteq> []"
proof -
  have "\<forall>word \<in> set words. startsWith word stem \<longrightarrow> word \<noteq> []"
    using that by (auto simp: startsWith_prefix)
  then show ?thesis
    by (simp add: truthy_find startsWith_prefix)
qed

lemma truthy_find_stem:
  "truthy (find (\<lambda>validStem. truthy (find (\<lambda>word. startsWith word validStem) words)) validStems)
     \<longleftrightarrow> (\<exists>stem \<in> set validStems. \<exists>word \<in> set words. prefix stem word)"
  if "[] \<notin> set validStems"
proof -
  have ne: "\<forall>stem \<in> set validStems. stem \<noteq> []"
    using that by auto
  then have "\<forall>stem \<in> set validStems.
      truthy (find (\<lambda>word. startsWith word stem) words) \<longrightarrow> stem \<noteq> []"
    by simp
  then have "truthy (find (\<lambda>validStem. truthy (find (\<lambda>word. startsWith word validStem) words))
      validStems) \<longleftrightarrow>
    (\<exists>stem \<in> set validStems. truthy (find (\<lambda>word. startsWith word stem) words))"
    by (rule truthy_find)
  also have "\<dots> \<longleftrightarrow> (\<exists>stem \<in> set validStems. \<exists>word \<in> set words. prefix stem word)"
    using ne by (auto simp: truthy_find_word)
  finally show ?thesis .
qed

lemma stems_match:
  "(v, validStems) \<in> set stems \<Longrightarrow>
   truthy (find (\<lambda>validStem. truthy (find (\<lambda>word. startsWith word validStem) words)) validStems)
     \<longleftrightarrow> matches words v"
  unfolding matches_def
  by (subst truthy_find_stem) (auto simp: stems_def)

lemma toVariable_firstMatch: "toVariable keywords input = firstMatch (keywords input)"
proof -
  have "find (\<lambda>(variable, validStems).
            truthy (find (\<lambda>validStem. truthy (find (\<lambda>word. startsWith word validStem) words))
              validStems)) stems
        = find (\<lambda>(variable, validStems). matches words variable) stems" for words
    by (rule find_cong) (auto simp: stems_match)
  then show ?thesis
    by (simp add: toVariable_def firstMatch_def) (simp add: stems_def)
qed

lemma matches_cold: "''cold'' \<in> set words \<Longrightarrow> matches words Temperature"
  unfolding matches_def by (auto intro!: bexI [where x = "''cold''"])

text \<open>
  C4. \<^verbatim>\<open>toVariable\<close> returns the first variable, in the order Temperature,
  TotalCloudCover, TotalPrecipitation, WindSpeed, that has a vocabulary entry which is a
  prefix of an extracted keyword (and nothing when no variable has one). With a keyword
  extractor that keeps the word \<^verbatim>\<open>cold\<close> of \<^verbatim>\<open>It was so cold and windy\<close>, the
  sentence is classified as Temperature.
\<close>

theorem toVariable_first_match:
  "toVariable keywords input = firstMatch (keywords input) \<and>
   (''cold'' \<in> set (keywords ''It was so cold and windy'') \<longrightarrow>
      toVariable keywords ''It was so cold and windy'' = Some Temperature)"
  by (simp add: toVariable_firstMatch) (simp add: firstMatch_def matches_cold)

theorem toVariable_first_match_witness:
  "toVariable demoKeywords ''It was so cold and windy'' = Some Temperature \<and>
   firstMatch [''cold'', ''windy''] = Some Temperature"
  using toVariable_first_match [of demoKeywords "''It was so cold and windy''"]
  by (auto simp: demoKeywords_def)

section \<open>Properties of the request builder\<close>

text \<open>
  C8. \<^verbatim>\<open>toDataRequest\<close> reads the date range, the bounding box and the variable of its
  argument and nothing else, so two calls on the same query, or on two queries that agree
  on the three, return the same value.
\<close>

theorem toDataRequest_deterministic:
  assumes "dateRange q = dateRange q'"
    and "geoCoordinates q = geoCoordinates q'"
    and "variable q = variable q'"
  shows "toDataRequest q = toDataRequest q'"
  unfolding toDataRequest_def assms by (rule refl)

theorem toDataRequest_deterministic_witness:
  "toDataRequest march2015 = toDataRequest (march2015\<lparr>googleResult := ''Lutetia''\<rparr>)"
  by (rule toDataRequest_deterministic) simp_all

section \<open>Properties of the rounding to binary64\<close>

lemma pow2_pos: "0 < pow2 e"
  by (simp add: pow2_def zero_less_power_int)

lemma pow2_add: "pow2 (a + b) = pow2 a * pow2 b"
  by (simp add: pow2_def power_int_add)

lemma pow2_nat: "pow2 (int k) = 2 ^ k"
  by (simp add: pow2_def)

lemma pow2_less_iff: "pow2 a < pow2 b \<longleftrightarrow> a < b"
proof
  assume "a < b"
  then show "pow2 a < pow2 b"
    unfolding pow2_def by (rule power_int_strict_increasing) simp
next
  assume *: "pow2 a < pow2 b"
  show "a < b"
  proof (rule ccontr)
    assume "\<not> a < b"
    then have "b \<le> a" by simp
    then have "pow2 b \<le> pow2 a"
      unfolding pow2_def by (rule power_int_increasing) simp
    with * show False by simp
  qed
qed

lemma pow2_le_iff: "pow2 a \<le> pow2 b \<longleftrightarrow> a \<le> b"
  using pow2_less_iff [of b a] by (simp add: not_less [symmetric])

lemma bitlen_pos: "0 < n \<Longrightarrow> bitlen n = Suc (bitlen (n div 2))"
  by (subst bitlen.simps) simp

lemma bitlen_one: "bitlen (Suc 0) = Suc 0"
  by (simp add: bitlen.simps [of "Suc 0"] bitlen.simps [of 0])

lemma bitlen_step:
  fixes P Q h n :: nat
  assumes "P \<le> h" and "h < Q" and "Q = 2 * P" and "2 * h \<le> n" and "n < 2 * h + 2"
  shows "Q \<le> n \<and> n < 2 * Q"
  using assms by linarith

lemma bitlen_bounds: "0 < n \<Longrightarrow> 2 ^ (bitlen n - 1) \<le> n \<and> n < 2 ^ bitlen n"
proof (induction n rule: bitlen.induct)
  case (1 n)
  show ?case
  proof (cases "n div 2 = 0")
    case True
    with "1.prems" have "n = Suc 0" by (cases n) auto
    then show ?thesis
      by (simp add: bitlen_one)
  next
    case False
    then have IH: "2 ^ (bitlen (n div 2) - 1) \<le> n div 2 \<and> n div 2 < 2 ^ bitlen (n div 2)"
      using "1.IH" "1.prems" by simp
    have b: "bitlen n = Suc (bitlen (n div 2))"
      using "1.prems" by (rule bitlen_pos)
    have "bitlen (n div 2) = Suc (bitlen (n div 2 div 2))"
      using False by (intro bitlen_pos) simp
    then have p: "(2::nat) ^ bitlen (n div 2) = 2 * 2 ^ (bitlen (n div 2) - 1)"
      by simp
    have "2 ^ bitlen (n div 2) \<le> n \<and> n < 2 * 2 ^ bitlen (n div 2)"
    proof (rule bitlen_step)
      show "2 ^ (bitlen (n div 2) - 1) \<le> n div 2" using IH by simp
      show "n div 2 < 2 ^ bitlen (n div 2)" using IH by simp
      show "(2::nat) ^ bitlen (n div 2) = 2 * 2 ^ (bitlen (n div 2) - 1)" by (rule p)
      show "2 * (n div 2) \<le> n" by simp
      show "n < 2 * (n div 2) + 2" by (simp add: algebra_simps)
    qed
    then show ?thesis
      unfolding b by simp
  qed
qed

lemma bitlen_gt_0: "0 < n \<Longrightarrow> 0 < bitlen n"
  by (simp add: bitlen_pos)

lemma pow2_minus_nat: "pow2 (- int k) = 1 / 2 ^ k"
  by (simp add: pow2_def power_int_minus_divide)

lemma floor_log2_bounds_ge1:
  assumes "1 \<le> q"
  shows "pow2 (floor_log2 q) \<le> q \<and> q < pow2 (floor_log2 q + 1)"
proof -
  define F where "F = nat \<lfloor>q\<rfloor>"
  have f1: "1 \<le> \<lfloor>q\<rfloor>"
    using assms by (simp add: le_floor_iff)
  then have Fpos: "0 < F" and Fint: "int F = \<lfloor>q\<rfloor>"
    by (simp_all add: F_def)
  have Frat: "rat_of_nat F = of_int \<lfloor>q\<rfloor>"
    using Fint by (metis of_int_of_nat_eq)
  have L: "0 < bitlen F"
    using Fpos by (rule bitlen_gt_0)
  have fl: "floor_log2 q = int (bitlen F - 1)"
    using assms L by (simp add: floor_log2_def F_def)
  have fl1: "floor_log2 q + 1 = int (bitlen F)"
    using L by (simp add: fl)
  have b1: "2 ^ (bitlen F - 1) \<le> F" and b2: "F < 2 ^ bitlen F"
    using bitlen_bounds [OF Fpos] by simp_all
  have "rat_of_nat (2 ^ (bitlen F - 1)) \<le> rat_of_nat F"
    using b1 by (simp only: of_nat_le_iff)
  then have lo: "(2::rat) ^ (bitlen F - 1) \<le> of_int \<lfloor>q\<rfloor>"
    by (simp add: Frat)
  have "Suc F \<le> 2 ^ bitlen F"
    using b2 by simp
  then have "rat_of_nat (Suc F) \<le> rat_of_nat (2 ^ bitlen F)"
    by (simp only: of_nat_le_iff)
  then have hi: "of_int \<lfloor>q\<rfloor> + 1 \<le> (2::rat) ^ bitlen F"
    by (simp add: Frat [symmetric])
  have "of_int \<lfloor>q\<rfloor> \<le> q" and "q < of_int \<lfloor>q\<rfloor> + 1"
    using floor_correct [of q] by simp_all
  with lo hi have "(2::rat) ^ (bitlen F - 1) \<le> q" and "q < 2 ^ bitlen F"
    by linarith+
  moreover have "pow2 (floor_log2 q) = 2 ^ (bitlen F - 1)"
    by (simp only: fl pow2_nat)
  moreover have "pow2 (floor_log2 q + 1) = 2 ^ bitlen F"
    by (simp only: fl1 pow2_nat)
  ultimately show ?thesis
    by simp
qed

lemma floor_log2_bounds_lt1:
  assumes "0 < q" and "q < 1"
  shows "pow2 (floor_log2 q) \<le> q \<and> q < pow2 (floor_log2 q + 1)"
proof -
  define C where "C = \<lceil>1 / q\<rceil>"
  define N where "N = nat (C - 1)"
  have inv: "1 < 1 / q"
    using assms by simp
  have c1: "of_int C - 1 < 1 / q" and c2: "1 / q \<le> of_int C"
    using ceiling_correct [of "1 / q"] by (simp_all add: C_def)
  from inv c2 have "(1::rat) < of_int C" by linarith
  then have C2: "2 \<le> C" by simp
  then have Npos: "0 < N" and Nint: "int N = C - 1"
    by (simp_all add: N_def)
  have Nrat: "rat_of_nat N = of_int C - 1"
    using Nint by (metis of_int_of_nat_eq of_int_diff of_int_1)
  have L: "0 < bitlen N"
    using Npos by (rule bitlen_gt_0)
  have fl: "floor_log2 q = - int (bitlen N)"
    using assms by (simp add: floor_log2_def N_def C_def)
  have fl1: "floor_log2 q + 1 = - int (bitlen N - 1)"
    using L by (simp add: fl)
  have b1: "2 ^ (bitlen N - 1) \<le> N" and b2: "N < 2 ^ bitlen N"
    using bitlen_bounds [OF Npos] by simp_all
  have "rat_of_nat (2 ^ (bitlen N - 1)) \<le> rat_of_nat N"
    using b1 by (simp only: of_nat_le_iff)
  then have "(2::rat) ^ (bitlen N - 1) \<le> of_int C - 1"
    by (simp add: Nrat)
  with c1 have "(2::rat) ^ (bitlen N - 1) < 1 / q" by linarith
  then have "q * 2 ^ (bitlen N - 1) < 1"
    using assms(1) by (simp add: field_simps)
  then have up: "q < 1 / 2 ^ (bitlen N - 1)"
    by (simp add: field_simps)
  have "Suc N \<le> 2 ^ bitlen N"
    using b2 by simp
  then have "rat_of_nat (Suc N) \<le> rat_of_nat (2 ^ bitlen N)"
    by (simp only: of_nat_le_iff)
  then have "of_int C \<le> (2::rat) ^ bitlen N"
    using Nrat by simp
  with c2 have "1 / q \<le> (2::rat) ^ bitlen N" by linarith
  then have "1 \<le> q * 2 ^ bitlen N"
    using assms(1) by (simp add: field_simps)
  then have low: "1 / 2 ^ bitlen N \<le> q"
    by (simp add: field_simps)
  moreover have "pow2 (floor_log2 q) = 1 / 2 ^ bitlen N"
    by (simp only: fl pow2_minus_nat)
  moreover have "pow2 (floor_log2 q + 1) = 1 / 2 ^ (bitlen N - 1)"
    by (simp only: fl1 pow2_minus_nat)
  moreover note up
  ultimately show ?thesis
    by simp
qed

lemma floor_log2_bounds:
  "0 < q \<Longrightarrow> pow2 (floor_log2 q) \<le> q \<and> q < pow2 (floor_log2 q + 1)"
  using floor_log2_bounds_ge1 [of q] floor_log2_bounds_lt1 [of q]
  by (cases "1 \<le> q") simp_all

lemma floor_log2_less: "0 < q \<Longrightarrow> q < pow2 (e + 1) \<Longrightarrow> floor_log2 q \<le> e"
proof -
  assume "0 < q" and "q < pow2 (e + 1)"
  then have "pow2 (floor_log2 q) < pow2 (e + 1)"
    using floor_log2_bounds [of q] by linarith
  then show ?thesis
    by (simp add: pow2_less_iff)
qed

lemma floor_log2_ge: "0 < q \<Longrightarrow> pow2 e \<le> q \<Longrightarrow> e \<le> floor_log2 q"
proof -
  assume "0 < q" and "pow2 e \<le> q"
  then have "pow2 e < pow2 (floor_log2 q + 1)"
    using floor_log2_bounds [of q] by linarith
  then show ?thesis
    by (simp add: pow2_less_iff)
qed

lemma round_half_even_of_int: "round_half_even (of_int n) = n"
  by (simp add: round_half_even_def)

lemma round_half_even_le:
  assumes "x \<le> of_int M"
  shows "round_half_even x \<le> M"
proof (cases "x = of_int \<lfloor>x\<rfloor>")
  case True
  then have "round_half_even x = \<lfloor>x\<rfloor>"
    by (metis round_half_even_of_int)
  moreover have "\<lfloor>x\<rfloor> \<le> M"
    using assms by (simp add: floor_le_iff)
  ultimately show ?thesis by simp
next
  case False
  have "of_int \<lfloor>x\<rfloor> < x"
    using False of_int_floor_le [of x] by linarith
  with assms have "rat_of_int \<lfloor>x\<rfloor> < of_int M" by linarith
  then have "\<lfloor>x\<rfloor> < M" by (simp only: of_int_less_iff)
  then show ?thesis
    by (simp add: round_half_even_def Let_def)
qed

lemma round_half_even_nonneg: "0 \<le> x \<Longrightarrow> 0 \<le> round_half_even x"
  by (simp add: round_half_even_def Let_def)

text \<open>
  A bound that is itself a binary64 value, \<open>M\<close> units in the last place of the binade
  \<open>E\<close>, bounds the rounded value as well: rounding does not overflow below it.
\<close>

lemma round_binary64_bounded:
  assumes q: "\<bar>q\<bar> \<le> of_int M * pow2 (E - 52)"
    and M: "pow2 52 \<le> of_int M" "of_int M < pow2 53"
    and E: "- 1022 \<le> E" "E < 1024"
  shows "\<exists>r. round_binary64 q = Finite r \<and> \<bar>r\<bar> \<le> of_int M * pow2 (E - 52)"
proof (cases "q = 0")
  case True
  have "0 \<le> rat_of_int M * pow2 (E - 52)"
    using q by linarith
  with True show ?thesis
    by (simp add: round_binary64_def)
next
  case False
  define B where "B = of_int M * pow2 (E - 52)"
  define e where "e = max (floor_log2 \<bar>q\<bar>) (- 1022)"
  define u where "u = pow2 (e - 52)"
  define r where "r = of_int (round_half_even (\<bar>q\<bar> / u)) * u"
  have qpos: "0 < \<bar>q\<bar>" using False by simp
  have upos: "0 < u" by (simp add: u_def pow2_pos)
  have Blo: "pow2 E \<le> B"
  proof -
    have "pow2 52 * pow2 (E - 52) \<le> of_int M * pow2 (E - 52)"
      using M(1) pow2_pos [of "E - 52"] by (simp only: mult_le_cancel_right_pos)
    moreover have "pow2 52 * pow2 (E - 52) = pow2 E"
      by (simp add: pow2_add [symmetric])
    ultimately show ?thesis by (simp add: B_def)
  qed
  have Bhi: "B < pow2 (E + 1)"
  proof -
    have "of_int M * pow2 (E - 52) < pow2 53 * pow2 (E - 52)"
      using M(2) pow2_pos [of "E - 52"] by (simp only: mult_less_cancel_right_pos)
    moreover have "pow2 53 * pow2 (E - 52) = pow2 (E + 1)"
      by (simp add: pow2_add [symmetric] add.commute)
    ultimately show ?thesis by (simp add: B_def)
  qed
  have "\<bar>q\<bar> < pow2 (E + 1)"
    using q Bhi by (simp add: B_def)
  then have "floor_log2 \<bar>q\<bar> \<le> E"
    using qpos by (intro floor_log2_less)
  then have eE: "e \<le> E"
    using E(1) by (simp add: e_def)
  have qe: "\<bar>q\<bar> < pow2 (e + 1)"
  proof -
    have "\<bar>q\<bar> < pow2 (floor_log2 \<bar>q\<bar> + 1)"
      using floor_log2_bounds [OF qpos] by simp
    also have "\<dots> \<le> pow2 (e + 1)"
      by (simp add: pow2_le_iff e_def)
    finally show ?thesis .
  qed
  have rnonneg: "0 \<le> r"
    using upos qpos by (simp add: r_def round_half_even_nonneg)
  have rB: "r \<le> B"
  proof (cases "e = E")
    case True
    have "\<bar>q\<bar> / u \<le> of_int M"
      using q upos by (simp add: u_def True field_simps)
    then have "round_half_even (\<bar>q\<bar> / u) \<le> M"
      by (rule round_half_even_le)
    then have "rat_of_int (round_half_even (\<bar>q\<bar> / u)) \<le> of_int M"
      by (simp only: of_int_le_iff)
    then have "r \<le> of_int M * u"
      unfolding r_def using upos by (simp only: mult_le_cancel_right_pos)
    then show ?thesis
      by (simp add: B_def u_def True)
  next
    case False
    with eE have "e + 1 \<le> E" by simp
    have "pow2 53 * u = pow2 (e + 1)"
      by (simp add: u_def pow2_add [symmetric] add.commute)
    with qe have "\<bar>q\<bar> < pow2 53 * u" by simp
    then have "\<bar>q\<bar> / u \<le> pow2 53"
      using upos by (simp add: field_simps)
    moreover have "pow2 53 = rat_of_int (2 ^ 53)"
      by (simp add: pow2_def)
    ultimately have "\<bar>q\<bar> / u \<le> rat_of_int (2 ^ 53)" by simp
    then have "round_half_even (\<bar>q\<bar> / u) \<le> 2 ^ 53"
      by (rule round_half_even_le)
    then have "rat_of_int (round_half_even (\<bar>q\<bar> / u)) \<le> rat_of_int (2 ^ 53)"
      by (simp only: of_int_le_iff)
    then have "r \<le> rat_of_int (2 ^ 53) * u"
      unfolding r_def using upos by (simp only: mult_le_cancel_right_pos)
    also have "\<dots> = pow2 (e + 1)"
      using \<open>pow2 53 * u = pow2 (e + 1)\<close> \<open>pow2 53 = rat_of_int (2 ^ 53)\<close> by simp
    also have "\<dots> \<le> pow2 E"
      using \<open>e + 1 \<le> E\<close> by (simp add: pow2_le_iff)
    also note Blo
    finally show ?thesis .
  qed
  have "B < pow2 1024"
  proof -
    have "pow2 (E + 1) \<le> pow2 1024"
      using E(2) by (simp add: pow2_le_iff)
    with Bhi show ?thesis by linarith
  qed
  with rB have nov: "\<not> pow2 1024 \<le> r" by linarith
  have "round_binary64 q =
      (if pow2 1024 \<le> r then (if q < 0 then NegInfinity else PosInfinity)
       else Finite (if q < 0 then - r else r))"
    unfolding round_binary64_def Let_def r_def u_def e_def
    by (simp only: False if_False)
  then have "round_binary64 q = Finite (if q < 0 then - r else r)"
    by (simp only: nov if_False)
  moreover have "\<bar>if q < 0 then - r else r\<bar> \<le> B"
    using rB rnonneg by simp
  ultimately show ?thesis
    unfolding B_def by blast
qed

text \<open>An integer of at most 53 bits is a binary64 value: rounding leaves it as it is.\<close>

lemma round_binary64_of_int:
  assumes "\<bar>n\<bar> \<le> 2 ^ 53"
  shows "round_binary64 (of_int n) = Finite (of_int n)"
proof (cases "n = 0")
  case True
  then show ?thesis by (simp add: round_binary64_def)
next
  case False
  define q :: rat where "q = of_int n"
  define N where "N = \<bar>n\<bar>"
  define e where "e = max (floor_log2 \<bar>q\<bar>) (- 1022)"
  define u where "u = pow2 (e - 52)"
  define r where "r = of_int (round_half_even (\<bar>q\<bar> / u)) * u"
  have q0: "q \<noteq> 0" using False by (simp add: q_def)
  have absq: "\<bar>q\<bar> = of_int N" by (simp add: q_def N_def)
  have N1: "1 \<le> N" and N53: "N \<le> 2 ^ 53"
    using False assms by (simp_all add: N_def)
  have qpos: "0 < \<bar>q\<bar>" using q0 by simp
  have q1: "pow2 0 \<le> \<bar>q\<bar>"
    using N1 by (simp add: absq pow2_def)
  have q53: "\<bar>q\<bar> \<le> pow2 53"
  proof -
    have "rat_of_int N \<le> rat_of_int (2 ^ 53)"
      using N53 by (simp only: of_int_le_iff)
    then show ?thesis by (simp add: absq pow2_def)
  qed
  have "pow2 53 < pow2 (53 + 1)"
    by (simp add: pow2_less_iff)
  with q53 have "\<bar>q\<bar> < pow2 (53 + 1)" by linarith
  then have "floor_log2 \<bar>q\<bar> \<le> 53"
    using qpos by (intro floor_log2_less)
  moreover have "0 \<le> floor_log2 \<bar>q\<bar>"
    using qpos q1 by (intro floor_log2_ge)
  ultimately have e: "0 \<le> e" "e \<le> 53" "e = floor_log2 \<bar>q\<bar>"
    by (simp_all add: e_def)
  have upos: "0 < u" by (simp add: u_def pow2_pos)
  have "\<exists>X. \<bar>q\<bar> / u = rat_of_int X"
  proof (cases "e \<le> 52")
    case True
    have "pow2 (52 - e) * u = pow2 0"
      by (simp add: u_def pow2_add [symmetric])
    then have "pow2 (52 - e) * u = 1" by (simp add: pow2_def)
    then have "\<bar>q\<bar> / u = \<bar>q\<bar> * pow2 (52 - e)"
      using upos by (simp add: field_simps)
    moreover have "pow2 (52 - e) = rat_of_int (2 ^ nat (52 - e))"
      using True by (simp add: pow2_def power_int_def)
    ultimately have "\<bar>q\<bar> / u = rat_of_int (N * 2 ^ nat (52 - e))"
      by (simp add: absq)
    then show ?thesis ..
  next
    case False
    with e have e53: "e = 53" by simp
    have "pow2 e \<le> \<bar>q\<bar>"
      using floor_log2_bounds [OF qpos] by (simp add: e(3))
    with q53 have "\<bar>q\<bar> = pow2 53" by (simp add: e53)
    moreover have "u = pow2 1" by (simp add: u_def e53)
    ultimately have "\<bar>q\<bar> / u = rat_of_int (2 ^ 52)"
      by (simp add: pow2_def)
    then show ?thesis ..
  qed
  then obtain X where X: "\<bar>q\<bar> / u = rat_of_int X" ..
  have "r = rat_of_int X * u"
    by (simp add: r_def X round_half_even_of_int)
  also have "\<dots> = \<bar>q\<bar>"
    using upos by (simp add: X [symmetric])
  finally have r: "r = \<bar>q\<bar>" .
  have "pow2 53 < pow2 1024"
    by (simp add: pow2_less_iff)
  with q53 have nov: "\<not> pow2 1024 \<le> r"
    by (simp add: r)
  have "round_binary64 q =
      (if pow2 1024 \<le> r then (if q < 0 then NegInfinity else PosInfinity)
       else Finite (if q < 0 then - r else r))"
    unfolding round_binary64_def Let_def r_def u_def e_def
    by (simp only: q0 if_False)
  then have "round_binary64 q = Finite (if q < 0 then - r else r)"
    by (simp only: nov if_False)
  moreover have "(if q < 0 then - r else r) = q"
    by (simp add: r)
  ultimately show ?thesis
    by (simp add: q_def)
qed

section \<open>Properties of the representative instant\<close>

text \<open>The midpoint of a date with itself is the date.\<close>

lemma midpoint_same:
  assumes "\<bar>t\<bar> \<le> 2 ^ 52"
  shows "newDate (Math_round (number_half
           (number_add (getTime (Date t)) (getTime (Date t))))) = Date t"
proof -
  have "\<bar>2 * t\<bar> \<le> 2 ^ 53" using assms by simp
  then have "round_binary64 (of_int (2 * t)) = Finite (of_int (2 * t))"
    by (rule round_binary64_of_int)
  then have add: "number_add (getTime (Date t)) (getTime (Date t)) = Finite (of_int (2 * t))"
    by simp
  have "\<bar>t\<bar> \<le> 2 ^ 53" using assms by simp
  then have "round_binary64 (of_int t) = Finite (of_int t)"
    by (rule round_binary64_of_int)
  then have half: "number_half (Finite (of_int (2 * t))) = Finite (of_int t)"
    by simp
  have "\<lfloor>rat_of_int t + 1 / 2\<rfloor> = t"
    by (simp add: floor_unique)
  then have round: "Math_round (Finite (of_int t)) = Finite (of_int t)"
    by simp
  have "\<not> 8640000000000000 < \<bar>rat_of_int t\<bar>"
  proof -
    have "rat_of_int \<bar>t\<bar> \<le> rat_of_int (2 ^ 52)"
      using assms by (simp only: of_int_le_iff)
    then show ?thesis by simp
  qed
  then have "newDate (Finite (of_int t)) = Date t"
    by simp
  then show ?thesis
    by (simp only: add half round)
qed

text \<open>A valid date has a time value of at most 8.64e15 in magnitude.\<close>

lemma midpoint_valid:
  assumes "\<bar>a\<bar> \<le> 8640000000000000" and "\<bar>b\<bar> \<le> 8640000000000000"
  shows "\<exists>m. newDate (Math_round (number_half
           (number_add (getTime (Date a)) (getTime (Date b))))) = Date m"
proof -
  have M: "pow2 52 \<le> rat_of_int 8640000000000000" "rat_of_int 8640000000000000 < pow2 53"
    by (simp_all add: pow2_def)
  have "\<bar>rat_of_int a + rat_of_int b\<bar> \<le> rat_of_int (\<bar>a\<bar> + \<bar>b\<bar>)"
    by simp
  also have "\<dots> \<le> rat_of_int 17280000000000000"
    using assms by (simp only: of_int_le_iff)
  also have "\<dots> = rat_of_int 8640000000000000 * pow2 (53 - 52)"
    by (simp add: pow2_def)
  finally have "\<exists>r. round_binary64 (rat_of_int a + rat_of_int b) = Finite r \<and>
      \<bar>r\<bar> \<le> rat_of_int 8640000000000000 * pow2 (53 - 52)"
    using M by (intro round_binary64_bounded) simp_all
  then obtain r1 where r1: "round_binary64 (rat_of_int a + rat_of_int b) = Finite r1"
    and b1: "\<bar>r1\<bar> \<le> 17280000000000000"
    by (auto simp: pow2_def)
  have "\<bar>r1 / 2\<bar> \<le> rat_of_int 8640000000000000 * pow2 (52 - 52)"
    using b1 by (simp add: pow2_def)
  then have "\<exists>r. round_binary64 (r1 / 2) = Finite r \<and>
      \<bar>r\<bar> \<le> rat_of_int 8640000000000000 * pow2 (52 - 52)"
    using M by (intro round_binary64_bounded) simp_all
  then obtain r2 where r2: "round_binary64 (r1 / 2) = Finite r2"
    and b2: "\<bar>r2\<bar> \<le> 8640000000000000"
    by (auto simp: pow2_def)
  define k where "k = \<lfloor>r2 + 1 / 2\<rfloor>"
  have "k \<le> 8640000000000000"
  proof -
    have "r2 + 1 / 2 < rat_of_int 8640000000000000 + 1" using b2 by simp
    then show ?thesis
      unfolding k_def by (simp only: floor_le_iff)
  qed
  moreover have "- 8640000000000000 \<le> k"
  proof -
    have "rat_of_int (- 8640000000000000) \<le> r2 + 1 / 2" using b2 by simp
    then show ?thesis
      unfolding k_def by (simp only: le_floor_iff)
  qed
  ultimately have "\<bar>k\<bar> \<le> 8640000000000000" by simp
  then have "rat_of_int \<bar>k\<bar> \<le> rat_of_int 8640000000000000"
    by (simp only: of_int_le_iff)
  then have "\<not> 8640000000000000 < \<bar>rat_of_int k\<bar>" by simp
  then have "newDate (Finite (of_int k)) = Date k"
    by simp
  then have "newDate (Math_round (number_half
           (number_add (getTime (Date a)) (getTime (Date b))))) = Date k"
    by (simp add: r1 r2 k_def)
  then show ?thesis ..
qed

section \<open>Properties of the ISO string and its parts\<close>

lemma digits_chars: "set (digits k n) \<subseteq> set ''0123456789''"
proof (induction k arbitrary: n)
  case 0
  show ?case by simp
next
  case (Suc k)
  have "n mod 10 < length ''0123456789''" by simp
  then have "''0123456789'' ! (n mod 10) \<in> set ''0123456789''"
    by (rule nth_mem)
  with Suc [of "n div 10"] show ?case by simp
qed

lemma digits_no_separator:
  "CHR ''T'' \<notin> set (digits k n)" "CHR ''-'' \<notin> set (digits k n)"
  "CHR '':'' \<notin> set (digits k n)"
  using digits_chars [of k n] by auto

lemma split_notin: "c \<notin> set xs \<Longrightarrow> split c xs = [xs]"
  by (induction xs) auto

lemma split_append: "c \<notin> set xs \<Longrightarrow> split c (xs @ c # ys) = xs # split c ys"
  by (induction xs) auto

lemma yearString_no_T: "CHR ''T'' \<notin> set (yearString y)"
  by (simp add: yearString_def digits_no_separator)

lemma isoDatePart_no_T: "CHR ''T'' \<notin> set (isoDatePart t)"
  by (simp add: isoDatePart_def yearString_no_T digits_no_separator)

lemma isoTimePart_no_T: "CHR ''T'' \<notin> set (isoTimePart t)"
  by (simp add: isoTimePart_def digits_no_separator)

lemma split_T_iso:
  "split CHR ''T'' (isoDatePart t @ CHR ''T'' # isoTimePart t) = [isoDatePart t, isoTimePart t]"
  using split_append [OF isoDatePart_no_T, of t "isoTimePart t"]
    split_notin [OF isoTimePart_no_T, of t]
  by simp

lemma split_colon_time: "\<exists>hour rest. split CHR '':'' (isoTimePart t) = hour # rest"
  using split_append [of "CHR '':''" "digits 2 (nat (HourFromTime t))"]
  by (simp add: isoTimePart_def digits_no_separator)

lemma split_dash_tail:
  "split CHR ''-'' (y @ ''-'' @ digits 2 m @ ''-'' @ digits 2 d) = [y, digits 2 m, digits 2 d]"
  if "CHR ''-'' \<notin> set y"
  using that split_append [of "CHR ''-''" y "digits 2 m @ ''-'' @ digits 2 d"]
    split_append [of "CHR ''-''" "digits 2 m" "digits 2 d"]
    split_notin [of "CHR ''-''" "digits 2 d"]
  by (simp add: digits_no_separator)

lemma split_dash_date:
  "split CHR ''-'' (isoDatePart t) =
     (if YearFromTime t < 0
      then [[], digits 6 (nat (- YearFromTime t)), digits 2 (nat (MonthFromTime t + 1)),
            digits 2 (nat (DateFromTime t))]
      else [yearString (YearFromTime t), digits 2 (nat (MonthFromTime t + 1)),
            digits 2 (nat (DateFromTime t))])"
proof (cases "YearFromTime t < 0")
  case True
  have "split CHR ''-'' (digits 6 (nat (- YearFromTime t)) @ ''-'' @
      digits 2 (nat (MonthFromTime t + 1)) @ ''-'' @ digits 2 (nat (DateFromTime t))) =
    [digits 6 (nat (- YearFromTime t)), digits 2 (nat (MonthFromTime t + 1)),
     digits 2 (nat (DateFromTime t))]"
    by (rule split_dash_tail) (simp add: digits_no_separator)
  with True show ?thesis
    by (simp add: isoDatePart_def yearString_def)
next
  case False
  have "CHR ''-'' \<notin> set (yearString (YearFromTime t))"
    using False by (simp add: yearString_def digits_no_separator)
  then have "split CHR ''-'' (yearString (YearFromTime t) @ ''-'' @
      digits 2 (nat (MonthFromTime t + 1)) @ ''-'' @ digits 2 (nat (DateFromTime t))) =
    [yearString (YearFromTime t), digits 2 (nat (MonthFromTime t + 1)),
     digits 2 (nat (DateFromTime t))]"
    by (rule split_dash_tail)
  with False show ?thesis
    by (simp add: isoDatePart_def)
qed

lemma index_simps:
  "index (x # xs) 1 = index xs 0" "index (x # y # xs) 2 = index xs 0"
  by (simp_all add: numeral_2_eq_2)

text \<open>
  The request for a query whose representative instant is the valid date \<open>m\<close>: the
  ISO string splits into a date part and a time part, and the options are read from the
  parts of the date.
\<close>

lemma toDataRequest_Date:
  assumes "newDate (Math_round (number_half
             (number_add (getTime (max_date (dateRange q)))
                         (getTime (min_date (dateRange q)))))) = Date m"
  shows "toDataRequest q =
     Inr \<lparr>name = ''reanalysis-era5-single-levels'',
          options =
            [(''variable'', Variable (variable q)),
             (''product_type'', Str ''reanalysis''),
             (''grid'', StrList
                [number_toString (Math_ceil (number_sub
                   (max_coord (latitude (geoCoordinates q)))
                   (min_coord (latitude (geoCoordinates q))))),
                 number_toString (Math_ceil (number_sub
                   (max_coord (longitude (geoCoordinates q)))
                   (min_coord (longitude (geoCoordinates q)))))]),
             (''area'', StrList
                [number_toString (max_coord (latitude (geoCoordinates q))),
                 number_toString (min_coord (longitude (geoCoordinates q))),
                 number_toString (min_coord (latitude (geoCoordinates q))),
                 number_toString (max_coord (longitude (geoCoordinates q)))]),
             (''year'', property (index (split CHR ''-'' (isoDatePart m)) 0)),
             (''month'', property (index (split CHR ''-'' (isoDatePart m)) 1)),
             (''day'', property (index (split CHR ''-'' (isoDatePart m)) 2)),
             (''format'', Format grib)]\<rparr>"
  unfolding toDataRequest_def assms
  by (simp add: split_T_iso index_simps Let_def del: split.simps)

lemma digits_2015:
  "digits 4 2015 = ''2015''" "digits 2 3 = ''03''" "digits 2 (Suc 0) = ''01''"
  by code_simp+

lemma Day_eq: "k * 86400000 \<le> t \<Longrightarrow> t < (k + 1) * 86400000 \<Longrightarrow> Day t = k"
  using Day_ge [of k t] Day_ge [of "k + 1" t] by linarith

lemma calendar_2015_03_01:
  assumes "1425168000000 \<le> t" and "t < 1425254400000"
  shows "YearFromTime t = 2015" and "MonthFromTime t = 2" and "DateFromTime t = 1"
proof -
  have d: "Day t = 16495"
    using assms by (intro Day_eq) simp_all
  show y: "YearFromTime t = 2015"
    by (simp add: YearFromTime_def d YearFromDay_def DayFromYear_def)
  have w: "DayWithinYear t = 59"
    by (simp add: DayWithinYear_def y d DayFromYear_def)
  have l: "InLeapYear t = 0"
    by (simp add: InLeapYear_def y DaysInYear_def)
  show m: "MonthFromTime t = 2"
    by (simp add: MonthFromTime_def w l)
  show "DateFromTime t = 1"
    by (simp add: DateFromTime_def w l m)
qed

lemma isoDatePart_2015_03_01:
  assumes "1425168000000 \<le> t" and "t < 1425254400000"
  shows "split CHR ''-'' (isoDatePart t) = [''2015'', ''03'', ''01'']"
  by (simp add: split_dash_date calendar_2015_03_01 [OF assms] yearString_def digits_2015)

lemma toDataRequest_keys:
  assumes "toDataRequest q = Inr r"
  shows "map fst (options r) =
    [''variable'', ''product_type'', ''grid'', ''area'', ''year'', ''month'', ''day'', ''format'']"
  using assms
  by (auto simp: toDataRequest_def Let_def split: sum.splits option.splits)

text \<open>
  C6. For a query whose range starts and ends at the same instant of the UTC day
  2015-03-01, \<^verbatim>\<open>toDataRequest\<close> returns a request with the year \<^verbatim>\<open>2015\<close>, the month
  \<^verbatim>\<open>03\<close> and the day \<^verbatim>\<open>01\<close>. The options of every request it returns are
  the eight of the object literal: none is named \<^verbatim>\<open>time\<close> or \<^verbatim>\<open>hour\<close>.
\<close>

theorem toDataRequest_2015_03_01:
  "(1425168000000 \<le> t \<and> t < 1425254400000 \<and>
    dateRange q = \<lparr>min_date = Date t, max_date = Date t\<rparr> \<longrightarrow>
      (\<exists>r. toDataRequest q = Inr r \<and>
           map_of (options r) ''year'' = Some (Str ''2015'') \<and>
           map_of (options r) ''month'' = Some (Str ''03'') \<and>
           map_of (options r) ''day'' = Some (Str ''01''))) \<and>
   (toDataRequest q' = Inr r' \<longrightarrow>
      map fst (options r') =
        [''variable'', ''product_type'', ''grid'', ''area'', ''year'', ''month'', ''day'',
         ''format''] \<and>
      map_of (options r') ''time'' = None \<and> map_of (options r') ''hour'' = None)"
proof (intro conjI impI)
  assume *: "1425168000000 \<le> t \<and> t < 1425254400000 \<and>
    dateRange q = \<lparr>min_date = Date t, max_date = Date t\<rparr>"
  then have "\<bar>t\<bar> \<le> 2 ^ 52" by simp
  then have "newDate (Math_round (number_half
      (number_add (getTime (Date t)) (getTime (Date t))))) = Date t"
    by (rule midpoint_same)
  then have "newDate (Math_round (number_half
      (number_add (getTime (max_date (dateRange q)))
                  (getTime (min_date (dateRange q)))))) = Date t"
    using * by simp
  from toDataRequest_Date [OF this] * show "\<exists>r. toDataRequest q = Inr r \<and>
           map_of (options r) ''year'' = Some (Str ''2015'') \<and>
           map_of (options r) ''month'' = Some (Str ''03'') \<and>
           map_of (options r) ''day'' = Some (Str ''01'')"
    by (simp add: isoDatePart_2015_03_01 index_simps)
next
  assume "toDataRequest q' = Inr r'"
  then show "map fst (options r') =
        [''variable'', ''product_type'', ''grid'', ''area'', ''year'', ''month'', ''day'',
         ''format'']"
    by (rule toDataRequest_keys)
next
  assume "toDataRequest q' = Inr r'"
  then have "map fst (options r') =
    [''variable'', ''product_type'', ''grid'', ''area'', ''year'', ''month'', ''day'', ''format'']"
    by (rule toDataRequest_keys)
  then have "''time'' \<notin> fst ` set (options r')"
    by (simp flip: set_map)
  then show "map_of (options r') ''time'' = None"
    by (simp add: map_of_eq_None_iff)
next
  assume "toDataRequest q' = Inr r'"
  then have "map fst (options r') =
    [''variable'', ''product_type'', ''grid'', ''area'', ''year'', ''month'', ''day'', ''format'']"
    by (rule toDataRequest_keys)
  then have "''hour'' \<notin> fst ` set (options r')"
    by (simp flip: set_map)
  then show "map_of (options r') ''hour'' = None"
    by (simp add: map_of_eq_None_iff)
qed

theorem toDataRequest_2015_03_01_witness:
  "\<exists>r. toDataRequest march2015 = Inr r \<and>
       map_of (options r) ''year'' = Some (Str ''2015'') \<and>
       map_of (options r) ''month'' = Some (Str ''03'') \<and>
       map_of (options r) ''day'' = Some (Str ''01'') \<and>
       map_of (options r) ''time'' = None \<and> map_of (options r) ''hour'' = None"
proof -
  from toDataRequest_2015_03_01 [of 1425168000000 march2015] obtain r
    where r: "toDataRequest march2015 = Inr r"
      "map_of (options r) ''year'' = Some (Str ''2015'')"
      "map_of (options r) ''month'' = Some (Str ''03'')"
      "map_of (options r) ''day'' = Some (Str ''01'')"
    by (auto simp: march2015_def)
  from toDataRequest_2015_03_01 [of 0 march2015 march2015 r] r(1)
  have "map_of (options r) ''time'' = None \<and> map_of (options r) ''hour'' = None"
    by simp
  with r show ?thesis by blast
qed

text \<open>
  C9. For a query whose two dates are valid, \<^verbatim>\<open>toDataRequest\<close> returns a request:
  the representative instant is a valid date \<open>m\<close>, its ISO string splits at
  \<^verbatim>\<open>T\<close> into a date part and a time part, the time part has a first element at
  \<^verbatim>\<open>:\<close>, and the date part has the three elements at \<^verbatim>\<open>-\<close> that become the year,
  the month and the day of the request.
\<close>

theorem toDataRequest_total:
  assumes "valid_date (min_date (dateRange q))" and "valid_date (max_date (dateRange q))"
  shows "\<exists>m iso r year month day.
    newDate (Math_round (number_half
      (number_add (getTime (max_date (dateRange q)))
                  (getTime (min_date (dateRange q)))))) = Date m \<and>
    toISOString (Date m) = Inr iso \<and>
    index (split CHR ''T'' iso) 0 = Some (isoDatePart m) \<and>
    index (split CHR ''T'' iso) 1 = Some (isoTimePart m) \<and>
    index (split CHR '':'' (isoTimePart m)) 0 \<noteq> None \<and>
    index (split CHR ''-'' (isoDatePart m)) 0 = Some year \<and>
    index (split CHR ''-'' (isoDatePart m)) 1 = Some month \<and>
    index (split CHR ''-'' (isoDatePart m)) 2 = Some day \<and>
    toDataRequest q = Inr r \<and>
    map_of (options r) ''year'' = Some (Str year) \<and>
    map_of (options r) ''month'' = Some (Str month) \<and>
    map_of (options r) ''day'' = Some (Str day)"
proof -
  obtain a where a: "max_date (dateRange q) = Date a" "\<bar>a\<bar> \<le> 8640000000000000"
    using assms(2) by (cases "max_date (dateRange q)") simp_all
  obtain b where b: "min_date (dateRange q) = Date b" "\<bar>b\<bar> \<le> 8640000000000000"
    using assms(1) by (cases "min_date (dateRange q)") simp_all
  obtain m where m: "newDate (Math_round (number_half
      (number_add (getTime (max_date (dateRange q)))
                  (getTime (min_date (dateRange q)))))) = Date m"
    using midpoint_valid [OF a(2) b(2)] unfolding a(1) b(1) by blast
  obtain hour rest where h: "split CHR '':'' (isoTimePart m) = hour # rest"
    using split_colon_time [of m] by blast
  have "\<exists>year month day.
    index (split CHR ''-'' (isoDatePart m)) 0 = Some year \<and>
    index (split CHR ''-'' (isoDatePart m)) 1 = Some month \<and>
    index (split CHR ''-'' (isoDatePart m)) 2 = Some day"
    by (cases "YearFromTime m < 0") (simp_all add: split_dash_date index_simps)
  then obtain year month day where d:
    "index (split CHR ''-'' (isoDatePart m)) 0 = Some year"
    "index (split CHR ''-'' (isoDatePart m)) 1 = Some month"
    "index (split CHR ''-'' (isoDatePart m)) 2 = Some day"
    by blast
  show ?thesis
    using m d toDataRequest_Date [OF m]
    by (simp add: split_T_iso index_simps h del: split.simps)
qed

theorem toDataRequest_total_witness:
  "\<exists>r. toDataRequest march2015 = Inr r"
  using toDataRequest_total [of march2015]
  by (auto simp: march2015_def)

section \<open>Properties of the grid and the area\<close>

text \<open>
  Rounding checked from a certificate: the binade \<open>e\<close> of a positive \<open>q\<close> and the
  rounded number \<open>n\<close> of units in the last place.
\<close>

lemma round_binary64_certificate:
  assumes q: "0 < q" "pow2 e \<le> q" "q < pow2 (e + 1)"
    and e: "- 1022 \<le> e" "e < 1023"
    and n: "round_half_even (q / pow2 (e - 52)) = n"
  shows "round_binary64 q = Finite (of_int n * pow2 (e - 52))"
proof -
  define u where "u = pow2 (e - 52)"
  have upos: "0 < u" by (simp add: u_def pow2_pos)
  have "floor_log2 q \<le> e" using q(1,3) by (rule floor_log2_less)
  moreover have "e \<le> floor_log2 q" using q(1,2) by (rule floor_log2_ge)
  ultimately have fl: "max (floor_log2 \<bar>q\<bar>) (- 1022) = e"
    using q(1) e(1) by simp
  have "pow2 53 * u = pow2 (e + 1)"
    by (simp add: u_def pow2_add [symmetric] add.commute)
  with q(3) have "q < pow2 53 * u" by simp
  then have "q / u \<le> pow2 53"
    using upos by (simp add: field_simps)
  moreover have p53: "pow2 53 = rat_of_int (2 ^ 53)"
    by (simp add: pow2_def)
  ultimately have "q / u \<le> rat_of_int (2 ^ 53)" by simp
  then have "round_half_even (q / u) \<le> 2 ^ 53"
    by (rule round_half_even_le)
  then have "rat_of_int n \<le> rat_of_int (2 ^ 53)"
    unfolding n [unfolded u_def [symmetric]] by (simp only: of_int_le_iff)
  then have "rat_of_int n * u \<le> rat_of_int (2 ^ 53) * u"
    using upos by (simp only: mult_le_cancel_right_pos)
  also have "\<dots> = pow2 (e + 1)"
    using \<open>pow2 53 * u = pow2 (e + 1)\<close> p53 by simp
  also have "\<dots> < pow2 1024"
    using e(2) by (simp add: pow2_less_iff)
  finally have nov: "\<not> pow2 1024 \<le> rat_of_int n * u" by simp
  have q0: "q \<noteq> 0" and qabs: "\<bar>q\<bar> = q" and qneg: "\<not> q < 0"
    using q(1) by simp_all
  have "round_binary64 q =
      (if pow2 1024 \<le> rat_of_int n * u then (if q < 0 then NegInfinity else PosInfinity)
       else Finite (if q < 0 then - (rat_of_int n * u) else rat_of_int n * u))"
    unfolding round_binary64_def Let_def fl
    by (simp only: q0 if_False qabs n u_def)
  then have "round_binary64 q = Finite (rat_of_int n * u)"
    by (simp only: nov qneg if_False)
  then show ?thesis
    by (simp only: u_def)
qed

lemma floor_rat_numeral: "\<lfloor>numeral a / numeral b :: rat\<rfloor> = numeral a div numeral b"
  by (metis floor_divide_of_int_eq of_int_numeral)

lemma ceiling_rat_numeral: "\<lceil>numeral a / numeral b :: rat\<rceil> = - (- numeral a div numeral b)"
  using ceiling_divide_eq_div [of "numeral a" "numeral b", where ?'a = rat] by simp


text \<open>The decimal literals of the example and their neighbours, rounded.\<close>

lemma round_48_7: "round_binary64 (487 / 10) = Finite (3426957841452237 / 70368744177664)"
  using round_binary64_certificate [of "487 / 10" 5 6853915682904474]
  by (simp add: pow2_def round_half_even_def Let_def floor_rat_numeral)

lemma round_48_8: "round_binary64 (244 / 5) = Finite (3433994715870003 / 70368744177664)"
  using round_binary64_certificate [of "244 / 5" 5 6867989431740006]
  by (simp add: pow2_def round_half_even_def Let_def floor_rat_numeral)

lemma round_48_9: "round_binary64 (489 / 10) = Finite (6882063180575539 / 140737488355328)"
  using round_binary64_certificate [of "489 / 10" 5 6882063180575539]
  by (simp add: pow2_def round_half_even_def Let_def floor_rat_numeral)

lemma round_2_2: "round_binary64 (11 / 5) = Finite (2476979795053773 / 1125899906842624)"
  using round_binary64_certificate [of "11 / 5" 1 4953959590107546]
  by (simp add: pow2_def round_half_even_def Let_def floor_rat_numeral)

lemma round_2_3: "round_binary64 (23 / 10) = Finite (2589569785738035 / 1125899906842624)"
  using round_binary64_certificate [of "23 / 10" 1 5179139571476070]
  by (simp add: pow2_def round_half_even_def Let_def floor_rat_numeral)

lemma round_2_4: "round_binary64 (12 / 5) = Finite (5404319552844595 / 2251799813685248)"
  using round_binary64_certificate [of "12 / 5" 1 5404319552844595]
  by (simp add: pow2_def round_half_even_def Let_def floor_rat_numeral)

lemma round_lat_span:
  "round_binary64 (14073748835533 / 140737488355328) = Finite (14073748835533 / 140737488355328)"
  using round_binary64_certificate [of "14073748835533 / 140737488355328" "- 4" 7205759403792896]
  by (simp add: pow2_def round_half_even_def Let_def floor_rat_numeral)

lemma round_lon_span:
  "round_binary64 (225179981368525 / 2251799813685248) =
     Finite (225179981368525 / 2251799813685248)"
  using round_binary64_certificate [of "225179981368525 / 2251799813685248" "- 4" 7205759403792800]
  by (simp add: pow2_def round_half_even_def Let_def floor_rat_numeral)

lemma round_binary64_numeral:
  "numeral k \<le> (9007199254740992::int) \<Longrightarrow> round_binary64 (numeral k) = Finite (numeral k)"
  using round_binary64_of_int [of "numeral k"] by simp

lemma paris_values:
  "paris = \<lparr>latitude = \<lparr>min_coord = Finite (3433994715870003 / 70368744177664),
                        max_coord = Finite (6882063180575539 / 140737488355328)\<rparr>,
            longitude = \<lparr>min_coord = Finite (2589569785738035 / 1125899906842624),
                         max_coord = Finite (5404319552844595 / 2251799813685248)\<rparr>\<rparr>"
  by (simp add: paris_def literal_def round_48_8 round_48_9 round_2_3 round_2_4)

lemma shortest_numeral:
  "shortest x k (numeral f) =
     (case candidate x k of
        Some (s, n) \<Rightarrow> Some (k, s, n)
      | None \<Rightarrow> shortest x (Suc k) (pred_numeral f))"
  by (simp add: numeral_eq_Suc)

lemma declen_0: "declen 0 = 0"
  by (simp add: declen.simps [of 0])

lemma declen_digit: "0 < n \<Longrightarrow> n < 10 \<Longrightarrow> declen n = Suc 0"
  by (simp add: declen.simps [of n] declen_0)

lemma declen_48: "declen 48 = 2"
  by (simp add: declen.simps [of 48] declen_digit)

lemma round_binary64_1: "round_binary64 1 = Finite 1"
  using round_binary64_of_int [of 1] by simp

lemma fl10_1: "floor_log10 1 = 0"
  by (simp add: floor_log10_def declen_digit)

lemma cand_1: "candidate 1 (Suc 0) = Some (1, 1)"
  by (simp add: candidate_def Let_def fl10_1 pow10_def round_binary64_numeral round_binary64_1)

lemma toString_1: "number_toString (Finite 1) = ''1''"
  by (simp add: shortest_numeral cand_1 format_decimal_def)

lemmas candidate_simps =
  candidate_def Let_def pow10_def floor_rat_numeral round_binary64_numeral
  round_48_7 round_48_8 round_48_9 round_2_2 round_2_3 round_2_4

lemma fl10_48_9: "floor_log10 (6882063180575539 / 140737488355328) = 1"
  by (simp add: floor_log10_def floor_rat_numeral declen_48)

lemma cand_48_9_1: "candidate (6882063180575539 / 140737488355328) (Suc 0) = None"
  by (simp add: candidate_simps fl10_48_9)

lemma cand_48_9_2: "candidate (6882063180575539 / 140737488355328) (Suc (Suc 0)) = None"
  by (simp add: candidate_simps fl10_48_9)

lemma cand_48_9_3: "candidate (6882063180575539 / 140737488355328) (Suc (Suc (Suc 0))) = Some (489, 2)"
  by (simp add: candidate_simps fl10_48_9)

lemma toString_48_9: "number_toString (Finite (6882063180575539 / 140737488355328)) = ''48.9''"
  by (simp add: shortest_numeral cand_48_9_1 cand_48_9_2 cand_48_9_3 format_decimal_def)

lemma fl10_48_8: "floor_log10 (3433994715870003 / 70368744177664) = 1"
  by (simp add: floor_log10_def floor_rat_numeral declen_48)

lemma cand_48_8_1: "candidate (3433994715870003 / 70368744177664) (Suc 0) = None"
  by (simp add: candidate_simps fl10_48_8)

lemma cand_48_8_2: "candidate (3433994715870003 / 70368744177664) (Suc (Suc 0)) = None"
  by (simp add: candidate_simps fl10_48_8)

lemma cand_48_8_3: "candidate (3433994715870003 / 70368744177664) (Suc (Suc (Suc 0))) = Some (488, 2)"
  by (simp add: candidate_simps fl10_48_8)

lemma toString_48_8: "number_toString (Finite (3433994715870003 / 70368744177664)) = ''48.8''"
  by (simp add: shortest_numeral cand_48_8_1 cand_48_8_2 cand_48_8_3 format_decimal_def)

lemma fl10_2_3: "floor_log10 (2589569785738035 / 1125899906842624) = 0"
  by (simp add: floor_log10_def floor_rat_numeral declen_digit)

lemma cand_2_3_1: "candidate (2589569785738035 / 1125899906842624) (Suc 0) = None"
  by (simp add: candidate_simps fl10_2_3)

lemma cand_2_3_2: "candidate (2589569785738035 / 1125899906842624) (Suc (Suc 0)) = Some (23, 1)"
  by (simp add: candidate_simps fl10_2_3)

lemma toString_2_3: "number_toString (Finite (2589569785738035 / 1125899906842624)) = ''2.3''"
  by (simp add: shortest_numeral cand_2_3_1 cand_2_3_2 format_decimal_def)

lemma fl10_2_4: "floor_log10 (5404319552844595 / 2251799813685248) = 0"
  by (simp add: floor_log10_def floor_rat_numeral declen_digit)

lemma cand_2_4_1: "candidate (5404319552844595 / 2251799813685248) (Suc 0) = None"
  by (simp add: candidate_simps fl10_2_4)

lemma cand_2_4_2: "candidate (5404319552844595 / 2251799813685248) (Suc (Suc 0)) = Some (24, 1)"
  by (simp add: candidate_simps fl10_2_4)

lemma toString_2_4: "number_toString (Finite (5404319552844595 / 2251799813685248)) = ''2.4''"
  by (simp add: shortest_numeral cand_2_4_1 cand_2_4_2 format_decimal_def)

lemma toDataRequest_grid:
  assumes "toDataRequest q = Inr r"
  shows "map_of (options r) ''grid'' = Some (StrList
      [number_toString (Math_ceil (number_sub
         (max_coord (latitude (geoCoordinates q))) (min_coord (latitude (geoCoordinates q))))),
       number_toString (Math_ceil (number_sub
         (max_coord (longitude (geoCoordinates q))) (min_coord (longitude (geoCoordinates q)))))])"
  using assms
  by (auto simp: toDataRequest_def Let_def split: sum.splits option.splits)

lemma toDataRequest_area:
  assumes "toDataRequest q = Inr r"
  shows "map_of (options r) ''area'' = Some (StrList
      [number_toString (max_coord (latitude (geoCoordinates q))),
       number_toString (min_coord (longitude (geoCoordinates q))),
       number_toString (min_coord (latitude (geoCoordinates q))),
       number_toString (max_coord (longitude (geoCoordinates q)))])"
  using assms
  by (auto simp: toDataRequest_def Let_def split: sum.splits option.splits)

lemma toDataRequest_march2015: "\<exists>r. toDataRequest march2015 = Inr r"
proof -
  have "\<bar>1425168000000 :: int\<bar> \<le> 2 ^ 52" by simp
  then have "newDate (Math_round (number_half
      (number_add (getTime (Date 1425168000000)) (getTime (Date 1425168000000))))) =
      Date 1425168000000"
    by (rule midpoint_same)
  then have "newDate (Math_round (number_half
      (number_add (getTime (max_date (dateRange march2015)))
                  (getTime (min_date (dateRange march2015)))))) = Date 1425168000000"
    by (simp add: march2015_def)
  from toDataRequest_Date [OF this] show ?thesis ..
qed

text \<open>The numbers of the second example.\<close>

lemma round_7_75: "round_binary64 (31 / 4) = Finite (31 / 4)"
  using round_binary64_certificate [of "31 / 4" 2 8725724278030336]
  by (simp add: pow2_def round_half_even_def Let_def floor_rat_numeral)

lemma round_12_75: "round_binary64 (51 / 4) = Finite (51 / 4)"
  using round_binary64_certificate [of "51 / 4" 3 7177611906121728]
  by (simp add: pow2_def round_half_even_def Let_def floor_rat_numeral)

lemma round_43_7: "round_binary64 (437 / 10) = Finite (3075114120563917 / 70368744177664)"
  using round_binary64_certificate [of "437 / 10" 5 6150228241127834]
  by (simp add: pow2_def round_half_even_def Let_def floor_rat_numeral)

lemma round_43_8: "round_binary64 (219 / 5) = Finite (3082150994981683 / 70368744177664)"
  using round_binary64_certificate [of "219 / 5" 5 6164301989963366]
  by (simp add: pow2_def round_half_even_def Let_def floor_rat_numeral)

lemma round_43_75: "round_binary64 (175 / 4) = Finite (175 / 4)"
  using round_binary64_certificate [of "175 / 4" 5 6157265115545600]
  by (simp add: pow2_def round_half_even_def Let_def floor_rat_numeral)

lemma round_43_76: "round_binary64 (1094 / 25) = Finite (6158672490429153 / 140737488355328)"
  using round_binary64_certificate [of "1094 / 25" 5 6158672490429153]
  by (simp add: pow2_def round_half_even_def Let_def floor_rat_numeral)

lemma round_9_5: "round_binary64 (19 / 2) = Finite (19 / 2)"
  using round_binary64_certificate [of "19 / 2" 3 5348024557502464]
  by (simp add: pow2_def round_half_even_def Let_def floor_rat_numeral)

lemma round_9_6: "round_binary64 (48 / 5) = Finite (5404319552844595 / 562949953421312)"
  using round_binary64_certificate [of "48 / 5" 3 5404319552844595]
  by (simp add: pow2_def round_half_even_def Let_def floor_rat_numeral)

lemma round_3_2: "round_binary64 (16 / 5) = Finite (3602879701896397 / 1125899906842624)"
  using round_binary64_certificate [of "16 / 5" 1 7205759403792794]
  by (simp add: pow2_def round_half_even_def Let_def floor_rat_numeral)

lemma round_3_3: "round_binary64 (33 / 10) = Finite (3715469692580659 / 1125899906842624)"
  using round_binary64_certificate [of "33 / 10" 1 7430939385161318]
  by (simp add: pow2_def round_half_even_def Let_def floor_rat_numeral)

lemma round_3_25: "round_binary64 (13 / 4) = Finite (13 / 4)"
  using round_binary64_certificate [of "13 / 4" 1 7318349394477056]
  by (simp add: pow2_def round_half_even_def Let_def floor_rat_numeral)

lemma round_3_26: "round_binary64 (163 / 50) = Finite (1835216848153477 / 562949953421312)"
  using round_binary64_certificate [of "163 / 50" 1 7340867392613908]
  by (simp add: pow2_def round_half_even_def Let_def floor_rat_numeral)

lemma declen_two: "10 \<le> n \<Longrightarrow> n < 100 \<Longrightarrow> declen n = 2"
  by (simp add: declen.simps [of n] declen_digit)

lemmas candidate_simps2 =
  candidate_simps round_43_7 round_43_8 round_43_75 round_43_76 round_9_5 round_9_6
  round_3_2 round_3_3 round_3_25 round_3_26

lemma fl10_8: "floor_log10 (8) = 0"
  by (simp add: floor_log10_def floor_rat_numeral declen_digit)

lemma cand_8_1: "candidate (8) (Suc 0) = Some (8, 1)"
  by (simp add: candidate_simps2 fl10_8)

lemma toString_8: "number_toString (Finite (8)) = ''8''"
  by (simp add: shortest_numeral cand_8_1 format_decimal_def)

lemma fl10_13: "floor_log10 (13) = 1"
  by (simp add: floor_log10_def floor_rat_numeral declen_two)

lemma cand_13_1: "candidate (13) (Suc 0) = None"
  by (simp add: candidate_simps2 fl10_13)

lemma cand_13_2: "candidate (13) (Suc (Suc 0)) = Some (13, 2)"
  by (simp add: candidate_simps2 fl10_13)

lemma toString_13: "number_toString (Finite (13)) = ''13''"
  by (simp add: shortest_numeral cand_13_1 cand_13_2 format_decimal_def)

lemma fl10_36: "floor_log10 (36) = 1"
  by (simp add: floor_log10_def floor_rat_numeral declen_two)

lemma cand_36_1: "candidate (36) (Suc 0) = None"
  by (simp add: candidate_simps2 fl10_36)

lemma cand_36_2: "candidate (36) (Suc (Suc 0)) = Some (36, 2)"
  by (simp add: candidate_simps2 fl10_36)

lemma toString_36: "number_toString (Finite (36)) = ''36''"
  by (simp add: shortest_numeral cand_36_1 cand_36_2 format_decimal_def)

lemma fl10_43_75: "floor_log10 (175 / 4) = 1"
  by (simp add: floor_log10_def floor_rat_numeral declen_two)

lemma cand_43_75_1: "candidate (175 / 4) (Suc 0) = None"
  by (simp add: candidate_simps2 fl10_43_75)

lemma cand_43_75_2: "candidate (175 / 4) (Suc (Suc 0)) = None"
  by (simp add: candidate_simps2 fl10_43_75)

lemma cand_43_75_3: "candidate (175 / 4) (Suc (Suc (Suc 0))) = None"
  by (simp add: candidate_simps2 fl10_43_75)

lemma cand_43_75_4: "candidate (175 / 4) (Suc (Suc (Suc (Suc 0)))) = Some (4375, 2)"
  by (simp add: candidate_simps2 fl10_43_75)

lemma toString_43_75: "number_toString (Finite (175 / 4)) = ''43.75''"
  by (simp add: shortest_numeral cand_43_75_1 cand_43_75_2 cand_43_75_3 cand_43_75_4 format_decimal_def)

lemma fl10_9_5: "floor_log10 (19 / 2) = 0"
  by (simp add: floor_log10_def floor_rat_numeral declen_digit)

lemma cand_9_5_1: "candidate (19 / 2) (Suc 0) = None"
  by (simp add: candidate_simps2 fl10_9_5)

lemma cand_9_5_2: "candidate (19 / 2) (Suc (Suc 0)) = Some (95, 1)"
  by (simp add: candidate_simps2 fl10_9_5)

lemma toString_minus_9_5: "number_toString (Finite (- (19 / 2))) = ''-9.5''"
  by (simp add: shortest_numeral cand_9_5_1 cand_9_5_2 format_decimal_def)

lemma fl10_3_25: "floor_log10 (13 / 4) = 0"
  by (simp add: floor_log10_def floor_rat_numeral declen_digit)

lemma cand_3_25_1: "candidate (13 / 4) (Suc 0) = None"
  by (simp add: candidate_simps2 fl10_3_25)

lemma cand_3_25_2: "candidate (13 / 4) (Suc (Suc 0)) = None"
  by (simp add: candidate_simps2 fl10_3_25)

lemma cand_3_25_3: "candidate (13 / 4) (Suc (Suc (Suc 0))) = Some (325, 1)"
  by (simp add: candidate_simps2 fl10_3_25)

lemma toString_3_25: "number_toString (Finite (13 / 4)) = ''3.25''"
  by (simp add: shortest_numeral cand_3_25_1 cand_3_25_2 cand_3_25_3 format_decimal_def)


text \<open>
  A number halfway between its two nearest decimals of 17 digits,
  128.00009155273437 and 128.00009155273438: both round to it, and the even one is
  printed.
\<close>

lemma declen_three: "100 \<le> n \<Longrightarrow> n < 1000 \<Longrightarrow> declen n = 3"
  by (simp add: declen.simps [of n] declen_two)

lemma fl10_tie: "floor_log10 (4194307 / 32768) = 2"
  by (simp add: floor_log10_def floor_rat_numeral declen_three)

lemma cand_tie_1: "candidate (4194307 / 32768) (Suc 0) = None"
  by (simp add: candidate_def Let_def pow10_def floor_rat_numeral round_binary64_numeral fl10_tie
      )

lemma cand_tie_2: "candidate (4194307 / 32768) (Suc (Suc 0)) = None"
  by (simp add: candidate_def Let_def pow10_def floor_rat_numeral round_binary64_numeral fl10_tie
      )

lemma cand_tie_3: "candidate (4194307 / 32768) (Suc (Suc (Suc 0))) = None"
  by (simp add: candidate_def Let_def pow10_def floor_rat_numeral round_binary64_numeral fl10_tie
      )

lemma round_tie_1: "round_binary64 (1281 / 10) = Finite (4507118064579379 / 35184372088832)"
  using round_binary64_certificate [of "1281 / 10" 7 4507118064579379]
  by (simp add: pow2_def round_half_even_def Let_def floor_rat_numeral)

lemma cand_tie_4: "candidate (4194307 / 32768) (Suc (Suc (Suc (Suc 0)))) = None"
  by (simp add: candidate_def Let_def pow10_def floor_rat_numeral round_binary64_numeral fl10_tie
      round_tie_1)

lemma round_tie_2: "round_binary64 (12801 / 100) = Finite (562993933886423 / 4398046511104)"
  using round_binary64_certificate [of "12801 / 100" 7 4503951471091384]
  by (simp add: pow2_def round_half_even_def Let_def floor_rat_numeral)

lemma cand_tie_5: "candidate (4194307 / 32768) (Suc (Suc (Suc (Suc (Suc 0))))) = None"
  by (simp add: candidate_def Let_def pow10_def floor_rat_numeral round_binary64_numeral fl10_tie
      round_tie_2)

lemma round_tie_3: "round_binary64 (128001 / 1000) = Finite (4503634811742585 / 35184372088832)"
  using round_binary64_certificate [of "128001 / 1000" 7 4503634811742585]
  by (simp add: pow2_def round_half_even_def Let_def floor_rat_numeral)

lemma cand_tie_6: "candidate (4194307 / 32768) (Suc (Suc (Suc (Suc (Suc (Suc 0)))))) = None"
  by (simp add: candidate_def Let_def pow10_def floor_rat_numeral round_binary64_numeral fl10_tie
      round_tie_3)

lemma round_tie_4: "round_binary64 (1280001 / 10000) = Finite (4503603145807705 / 35184372088832)"
  using round_binary64_certificate [of "1280001 / 10000" 7 4503603145807705]
  by (simp add: pow2_def round_half_even_def Let_def floor_rat_numeral)

lemma cand_tie_7: "candidate (4194307 / 32768) (Suc (Suc (Suc (Suc (Suc (Suc (Suc 0))))))) = None"
  by (simp add: candidate_def Let_def pow10_def floor_rat_numeral round_binary64_numeral fl10_tie
      round_tie_4)

lemma round_tie_5: "round_binary64 (12800009 / 100000) = Finite (281475174622749 / 2199023255552)"
  using round_binary64_certificate [of "12800009 / 100000" 7 4503602793963984]
  by (simp add: pow2_def round_half_even_def Let_def floor_rat_numeral)

lemma cand_tie_8: "candidate (4194307 / 32768) (Suc (Suc (Suc (Suc (Suc (Suc (Suc (Suc 0)))))))) = None"
  by (simp add: candidate_def Let_def pow10_def floor_rat_numeral round_binary64_numeral fl10_tie
      round_tie_5 round_tie_4)

lemma round_tie_6: "round_binary64 (128000091 / 1000000) = Finite (1125900707287089 / 8796093022208)"
  using round_binary64_certificate [of "128000091 / 1000000" 7 4503602829148356]
  by (simp add: pow2_def round_half_even_def Let_def floor_rat_numeral)

lemma round_tie_7: "round_binary64 (32000023 / 250000) = Finite (562950358041591 / 4398046511104)"
  using round_binary64_certificate [of "32000023 / 250000" 7 4503602864332728]
  by (simp add: pow2_def round_half_even_def Let_def floor_rat_numeral)

lemma cand_tie_9: "candidate (4194307 / 32768) (Suc (Suc (Suc (Suc (Suc (Suc (Suc (Suc (Suc 0))))))))) = None"
  by (simp add: candidate_def Let_def pow10_def floor_rat_numeral round_binary64_numeral fl10_tie
      round_tie_6 round_tie_7)

lemma round_tie_8: "round_binary64 (256000183 / 2000000) = Finite (2251801423370271 / 17592186044416)"
  using round_binary64_certificate [of "256000183 / 2000000" 7 4503602846740542]
  by (simp add: pow2_def round_half_even_def Let_def floor_rat_numeral)

lemma round_tie_9: "round_binary64 (320000229 / 2500000) = Finite (4503602850258979 / 35184372088832)"
  using round_binary64_certificate [of "320000229 / 2500000" 7 4503602850258979]
  by (simp add: pow2_def round_half_even_def Let_def floor_rat_numeral)

lemma cand_tie_10: "candidate (4194307 / 32768) (Suc (Suc (Suc (Suc (Suc (Suc (Suc (Suc (Suc (Suc 0)))))))))) = None"
  by (simp add: candidate_def Let_def pow10_def floor_rat_numeral round_binary64_numeral fl10_tie
      round_tie_8 round_tie_9)

lemma round_tie_10: "round_binary64 (2560001831 / 20000000) = Finite (4503602848499761 / 35184372088832)"
  using round_binary64_certificate [of "2560001831 / 20000000" 7 4503602848499761]
  by (simp add: pow2_def round_half_even_def Let_def floor_rat_numeral)

lemma round_tie_11: "round_binary64 (3200002289 / 25000000) = Finite (1125900712212901 / 8796093022208)"
  using round_binary64_certificate [of "3200002289 / 25000000" 7 4503602848851604]
  by (simp add: pow2_def round_half_even_def Let_def floor_rat_numeral)

lemma cand_tie_11: "candidate (4194307 / 32768) (Suc (Suc (Suc (Suc (Suc (Suc (Suc (Suc (Suc (Suc (Suc 0))))))))))) = None"
  by (simp add: candidate_def Let_def pow10_def floor_rat_numeral round_binary64_numeral fl10_tie
      round_tie_10 round_tie_11)

lemma round_tie_12: "round_binary64 (4000002861 / 31250000) = Finite (4503602848570129 / 35184372088832)"
  using round_binary64_certificate [of "4000002861 / 31250000" 7 4503602848570129]
  by (simp add: pow2_def round_half_even_def Let_def floor_rat_numeral)

lemma round_tie_13: "round_binary64 (128000091553 / 1000000000) = Finite (2251801424302657 / 17592186044416)"
  using round_binary64_certificate [of "128000091553 / 1000000000" 7 4503602848605314]
  by (simp add: pow2_def round_half_even_def Let_def floor_rat_numeral)

lemma cand_tie_12: "candidate (4194307 / 32768) (Suc (Suc (Suc (Suc (Suc (Suc (Suc (Suc (Suc (Suc (Suc (Suc 0)))))))))))) = None"
  by (simp add: candidate_def Let_def pow10_def floor_rat_numeral round_binary64_numeral fl10_tie
      round_tie_12 round_tie_13)

lemma round_tie_14: "round_binary64 (1280000915527 / 10000000000) = Finite (4503602848594759 / 35184372088832)"
  using round_binary64_certificate [of "1280000915527 / 10000000000" 7 4503602848594759]
  by (simp add: pow2_def round_half_even_def Let_def floor_rat_numeral)

lemma round_tie_15: "round_binary64 (160000114441 / 1250000000) = Finite (4503602848598277 / 35184372088832)"
  using round_binary64_certificate [of "160000114441 / 1250000000" 7 4503602848598277]
  by (simp add: pow2_def round_half_even_def Let_def floor_rat_numeral)

lemma cand_tie_13: "candidate (4194307 / 32768) (Suc (Suc (Suc (Suc (Suc (Suc (Suc (Suc (Suc (Suc (Suc (Suc (Suc 0))))))))))))) = None"
  by (simp add: candidate_def Let_def pow10_def floor_rat_numeral round_binary64_numeral fl10_tie
      round_tie_14 round_tie_15)

lemma round_tie_16: "round_binary64 (12800009155273 / 100000000000) = Finite (2251801424297907 / 17592186044416)"
  using round_binary64_certificate [of "12800009155273 / 100000000000" 7 4503602848595814]
  by (simp add: pow2_def round_half_even_def Let_def floor_rat_numeral)

lemma round_tie_17: "round_binary64 (6400004577637 / 50000000000) = Finite (2251801424298083 / 17592186044416)"
  using round_binary64_certificate [of "6400004577637 / 50000000000" 7 4503602848596166]
  by (simp add: pow2_def round_half_even_def Let_def floor_rat_numeral)

lemma cand_tie_14: "candidate (4194307 / 32768) (Suc (Suc (Suc (Suc (Suc (Suc (Suc (Suc (Suc (Suc (Suc (Suc (Suc (Suc 0)))))))))))))) = None"
  by (simp add: candidate_def Let_def pow10_def floor_rat_numeral round_binary64_numeral fl10_tie
      round_tie_16 round_tie_17)

lemma round_tie_18: "round_binary64 (64000045776367 / 500000000000) = Finite (4503602848595955 / 35184372088832)"
  using round_binary64_certificate [of "64000045776367 / 500000000000" 7 4503602848595955]
  by (simp add: pow2_def round_half_even_def Let_def floor_rat_numeral)

lemma round_tie_19: "round_binary64 (25600018310547 / 200000000000) = Finite (2251801424297995 / 17592186044416)"
  using round_binary64_certificate [of "25600018310547 / 200000000000" 7 4503602848595990]
  by (simp add: pow2_def round_half_even_def Let_def floor_rat_numeral)

lemma cand_tie_15: "candidate (4194307 / 32768) (Suc (Suc (Suc (Suc (Suc (Suc (Suc (Suc (Suc (Suc (Suc (Suc (Suc (Suc (Suc 0))))))))))))))) = None"
  by (simp add: candidate_def Let_def pow10_def floor_rat_numeral round_binary64_numeral fl10_tie
      round_tie_18 round_tie_19)

lemma round_tie_20: "round_binary64 (1280000915527343 / 10000000000000) = Finite (4503602848595965 / 35184372088832)"
  using round_binary64_certificate [of "1280000915527343 / 10000000000000" 7 4503602848595965]
  by (simp add: pow2_def round_half_even_def Let_def floor_rat_numeral)

lemma round_tie_21: "round_binary64 (80000057220459 / 625000000000) = Finite (4503602848595969 / 35184372088832)"
  using round_binary64_certificate [of "80000057220459 / 625000000000" 7 4503602848595969]
  by (simp add: pow2_def round_half_even_def Let_def floor_rat_numeral)

lemma cand_tie_16: "candidate (4194307 / 32768) (Suc (Suc (Suc (Suc (Suc (Suc (Suc (Suc (Suc (Suc (Suc (Suc (Suc (Suc (Suc (Suc 0)))))))))))))))) = None"
  by (simp add: candidate_def Let_def pow10_def floor_rat_numeral round_binary64_numeral fl10_tie
      round_tie_20 round_tie_21)

lemma round_tie_22: "round_binary64 (12800009155273437 / 100000000000000) = Finite (4194307 / 32768)"
  using round_binary64_certificate [of "12800009155273437 / 100000000000000" 7 4503602848595968]
  by (simp add: pow2_def round_half_even_def Let_def floor_rat_numeral)

lemma round_tie_23: "round_binary64 (6400004577636719 / 50000000000000) = Finite (4194307 / 32768)"
  using round_binary64_certificate [of "6400004577636719 / 50000000000000" 7 4503602848595968]
  by (simp add: pow2_def round_half_even_def Let_def floor_rat_numeral)

lemma cand_tie_17: "candidate (4194307 / 32768) (Suc (Suc (Suc (Suc (Suc (Suc (Suc (Suc (Suc (Suc (Suc (Suc (Suc (Suc (Suc (Suc (Suc 0))))))))))))))))) = Some (12800009155273438, 3)"
  by (simp add: candidate_def Let_def pow10_def floor_rat_numeral round_binary64_numeral fl10_tie
      round_tie_22 round_tie_23)

lemma shortest_tie:
  "shortest (4194307 / 32768) (Suc 0) 17 =
     Some (Suc (Suc (Suc (Suc (Suc (Suc (Suc (Suc (Suc (Suc (Suc (Suc (Suc (Suc (Suc (Suc (Suc 0)))))))))))))))),
           12800009155273438, 3)"
  by (simp add: shortest_numeral cand_tie_1 cand_tie_2 cand_tie_3 cand_tie_4 cand_tie_5 cand_tie_6 cand_tie_7 cand_tie_8 cand_tie_9 cand_tie_10 cand_tie_11 cand_tie_12 cand_tie_13 cand_tie_14 cand_tie_15 cand_tie_16 cand_tie_17)

lemma digits_tie:
  "digits (Suc (Suc (Suc (Suc (Suc (Suc (Suc (Suc (Suc (Suc (Suc (Suc (Suc (Suc (Suc (Suc (Suc 0)))))))))))))))))
     12800009155273438 = ''12800009155273438''"
  by simp

lemma format_tie:
  "format_decimal
     (Suc (Suc (Suc (Suc (Suc (Suc (Suc (Suc (Suc (Suc (Suc (Suc (Suc (Suc (Suc (Suc (Suc 0)))))))))))))))))
     12800009155273438 3 = ''128.00009155273438''"
  unfolding format_decimal_def
  by (simp add: digits_tie Let_def del: digits.simps)

lemma toString_tie: "number_toString (Finite (4194307 / 32768)) = ''128.00009155273438''"
  by (simp add: shortest_tie format_tie)

lemma toDataRequest_iberia2015: "\<exists>r. toDataRequest iberia2015 = Inr r"
proof -
  have "\<bar>1425168000000 :: int\<bar> \<le> 2 ^ 52" by simp
  then have "newDate (Math_round (number_half
      (number_add (getTime (Date 1425168000000)) (getTime (Date 1425168000000))))) =
      Date 1425168000000"
    by (rule midpoint_same)
  then have "newDate (Math_round (number_half
      (number_add (getTime (max_date (dateRange iberia2015)))
                  (getTime (min_date (dateRange iberia2015)))))) = Date 1425168000000"
    by (simp add: iberia2015_def march2015_def)
  from toDataRequest_Date [OF this] show ?thesis ..
qed

lemma Math_ceil_ceiling:
  "Math_ceil x = (case x of Finite d \<Rightarrow> Finite (of_int \<lceil>d\<rceil>) | y \<Rightarrow> y)"
  by (cases x) simp_all

text \<open>
  C7. In every request that \<^verbatim>\<open>toDataRequest\<close> returns, the grid is the pair of the
  printed ceilings of the latitude span and of the longitude span: for finite bounds
  \<open>a\<close> and \<open>b\<close> whose difference rounds to the binary64 value \<open>d\<close>, the entry is
  the printed integer \<open>\<lceil>d\<rceil>\<close>, and a span that is not finite is printed as it is. The
  area is the printed latitude maximum, longitude minimum, latitude minimum and longitude
  maximum. For the bounding box with latitudes 48.8 to 48.9 and longitudes 2.3 to 2.4 the
  grid is \<^verbatim>\<open>1\<close>, \<^verbatim>\<open>1\<close> and the area is \<^verbatim>\<open>48.9\<close>, \<^verbatim>\<open>2.3\<close>, \<^verbatim>\<open>48.8\<close>,
  \<^verbatim>\<open>2.4\<close>; for latitudes 36 to 43.75 and longitudes -9.5 to 3.25 the grid is
  \<^verbatim>\<open>8\<close>, \<^verbatim>\<open>13\<close> and the area is \<^verbatim>\<open>43.75\<close>, \<^verbatim>\<open>-9.5\<close>, \<^verbatim>\<open>36\<close>, \<^verbatim>\<open>3.25\<close>.
\<close>

theorem toDataRequest_grid_area:
  assumes "toDataRequest q = Inr r"
  shows "map_of (options r) ''grid'' = Some (StrList
      [number_toString
         (case number_sub (max_coord (latitude (geoCoordinates q)))
                          (min_coord (latitude (geoCoordinates q))) of
            Finite d \<Rightarrow> Finite (of_int \<lceil>d\<rceil>) | other \<Rightarrow> other),
       number_toString
         (case number_sub (max_coord (longitude (geoCoordinates q)))
                          (min_coord (longitude (geoCoordinates q))) of
            Finite d \<Rightarrow> Finite (of_int \<lceil>d\<rceil>) | other \<Rightarrow> other)]) \<and>
    (\<forall>a b c d a' b'.
       latitude (geoCoordinates q) = \<lparr>min_coord = Finite b, max_coord = Finite a\<rparr> \<and>
       longitude (geoCoordinates q) = \<lparr>min_coord = Finite b', max_coord = Finite a'\<rparr> \<and>
       round_binary64 (a - b) = Finite c \<and> round_binary64 (a' - b') = Finite d \<longrightarrow>
       map_of (options r) ''grid'' = Some (StrList
         [number_toString (Finite (of_int \<lceil>c\<rceil>)), number_toString (Finite (of_int \<lceil>d\<rceil>))])) \<and>
    map_of (options r) ''area'' = Some (StrList
      [number_toString (max_coord (latitude (geoCoordinates q))),
       number_toString (min_coord (longitude (geoCoordinates q))),
       number_toString (min_coord (latitude (geoCoordinates q))),
       number_toString (max_coord (longitude (geoCoordinates q)))]) \<and>
    (geoCoordinates q = paris \<longrightarrow>
       map_of (options r) ''grid'' = Some (StrList [''1'', ''1'']) \<and>
       map_of (options r) ''area'' = Some (StrList [''48.9'', ''2.3'', ''48.8'', ''2.4''])) \<and>
    (geoCoordinates q = iberia \<longrightarrow>
       map_of (options r) ''grid'' = Some (StrList [''8'', ''13'']) \<and>
       map_of (options r) ''area'' = Some (StrList [''43.75'', ''-9.5'', ''36'', ''3.25'']))"
proof (intro conjI impI allI)
  show "map_of (options r) ''grid'' = Some (StrList
      [number_toString
         (case number_sub (max_coord (latitude (geoCoordinates q)))
                          (min_coord (latitude (geoCoordinates q))) of
            Finite d \<Rightarrow> Finite (of_int \<lceil>d\<rceil>) | other \<Rightarrow> other),
       number_toString
         (case number_sub (max_coord (longitude (geoCoordinates q)))
                          (min_coord (longitude (geoCoordinates q))) of
            Finite d \<Rightarrow> Finite (of_int \<lceil>d\<rceil>) | other \<Rightarrow> other)])"
    unfolding toDataRequest_grid [OF assms] Math_ceil_ceiling ..
next
  fix a b c d a' b'
  assume "latitude (geoCoordinates q) = \<lparr>min_coord = Finite b, max_coord = Finite a\<rparr> \<and>
       longitude (geoCoordinates q) = \<lparr>min_coord = Finite b', max_coord = Finite a'\<rparr> \<and>
       round_binary64 (a - b) = Finite c \<and> round_binary64 (a' - b') = Finite d"
  then show "map_of (options r) ''grid'' = Some (StrList
         [number_toString (Finite (of_int \<lceil>c\<rceil>)), number_toString (Finite (of_int \<lceil>d\<rceil>))])"
    unfolding toDataRequest_grid [OF assms]
    by (simp del: number_toString.simps)
next
  show "map_of (options r) ''area'' = Some (StrList
      [number_toString (max_coord (latitude (geoCoordinates q))),
       number_toString (min_coord (longitude (geoCoordinates q))),
       number_toString (min_coord (latitude (geoCoordinates q))),
       number_toString (max_coord (longitude (geoCoordinates q)))])"
    by (rule toDataRequest_area [OF assms])
next
  assume p: "geoCoordinates q = paris"
  show "map_of (options r) ''grid'' = Some (StrList [''1'', ''1''])"
    unfolding toDataRequest_grid [OF assms] p
    by (simp add: paris_values round_lat_span round_lon_span ceiling_rat_numeral toString_1
        del: number_toString.simps)
  show "map_of (options r) ''area'' = Some (StrList [''48.9'', ''2.3'', ''48.8'', ''2.4''])"
    unfolding toDataRequest_area [OF assms] p
    by (simp add: paris_values toString_48_9 toString_2_3 toString_48_8 toString_2_4
        del: number_toString.simps)
next
  assume p: "geoCoordinates q = iberia"
  show "map_of (options r) ''grid'' = Some (StrList [''8'', ''13''])"
    unfolding toDataRequest_grid [OF assms] p
    by (simp add: iberia_def round_7_75 round_12_75 ceiling_rat_numeral toString_8 toString_13
        del: number_toString.simps)
  show "map_of (options r) ''area'' = Some (StrList [''43.75'', ''-9.5'', ''36'', ''3.25''])"
    unfolding toDataRequest_area [OF assms] p
    by (simp add: iberia_def toString_43_75 toString_minus_9_5 toString_36 toString_3_25
        del: number_toString.simps)
qed

theorem toDataRequest_grid_area_witness:
  "(\<exists>r. toDataRequest march2015 = Inr r \<and>
       map_of (options r) ''grid'' = Some (StrList [''1'', ''1'']) \<and>
       map_of (options r) ''area'' = Some (StrList [''48.9'', ''2.3'', ''48.8'', ''2.4''])) \<and>
   (\<exists>r. toDataRequest iberia2015 = Inr r \<and>
       map_of (options r) ''grid'' = Some (StrList [''8'', ''13'']) \<and>
       map_of (options r) ''area'' = Some (StrList [''43.75'', ''-9.5'', ''36'', ''3.25'']))"
proof
  obtain r where r: "toDataRequest march2015 = Inr r"
    using toDataRequest_march2015 ..
  have "geoCoordinates march2015 = paris"
    by (simp add: march2015_def)
  with toDataRequest_grid_area [OF r] have
    "map_of (options r) ''grid'' = Some (StrList [''1'', ''1'']) \<and>
     map_of (options r) ''area'' = Some (StrList [''48.9'', ''2.3'', ''48.8'', ''2.4''])"
    by blast
  with r show "\<exists>r. toDataRequest march2015 = Inr r \<and>
       map_of (options r) ''grid'' = Some (StrList [''1'', ''1'']) \<and>
       map_of (options r) ''area'' = Some (StrList [''48.9'', ''2.3'', ''48.8'', ''2.4''])"
    by blast
next
  obtain r where r: "toDataRequest iberia2015 = Inr r"
    using toDataRequest_iberia2015 ..
  have "geoCoordinates iberia2015 = iberia"
    by (simp add: iberia2015_def)
  with toDataRequest_grid_area [OF r] have
    "map_of (options r) ''grid'' = Some (StrList [''8'', ''13'']) \<and>
     map_of (options r) ''area'' = Some (StrList [''43.75'', ''-9.5'', ''36'', ''3.25''])"
    by blast
  with r show "\<exists>r. toDataRequest iberia2015 = Inr r \<and>
       map_of (options r) ''grid'' = Some (StrList [''8'', ''13'']) \<and>
       map_of (options r) ''area'' = Some (StrList [''43.75'', ''-9.5'', ''36'', ''3.25''])"
    by blast
qed

end
